theory Spec2Isabelle
  imports Complex_Main "HOL-Library.Monad_Syntax"
begin

section \<open>JavaScript values as the handlers of server.js see them\<close>

subsection \<open>Numbers\<close>

text \<open>
  A JavaScript number is an IEEE 754 double: NaN, one of the two infinities, negative
  zero, or a finite value. \<open>Fin x\<close> is the double of value \<open>x\<close>; \<open>Fin 0\<close> is positive zero
  and \<open>NZero\<close> is negative zero.
\<close>

datatype jnum = NaN | PInf | NInf | NZero | Fin real

text \<open>
  Rounding of a real to the nearest double, ties to even: 53 bits of significand, the
  exponent of a normal number between -1022 and 1023, subnormal numbers below, an
  infinity from \<open>2 ^ 1024\<close> on. A result that rounds to zero keeps the sign of the real.
\<close>

definition pow2 :: "int \<Rightarrow> real" where
  "pow2 k = (if 0 \<le> k then 2 ^ nat k else 1 / 2 ^ nat (- k))"

definition round_even :: "real \<Rightarrow> int" where
  "round_even q =
     (let f = \<lfloor>q\<rfloor>; d = q - of_int f
      in if d < 1 / 2 then f else if 1 / 2 < d then f + 1 else if even f then f else f + 1)"

definition exponent :: "real \<Rightarrow> int" where
  "exponent x = max \<lfloor>log 2 \<bar>x\<bar>\<rfloor> (- 1022)"

definition rnd :: "real \<Rightarrow> jnum" where
  "rnd x =
     (let u = pow2 (exponent x - 52);
          y = of_int (round_even (x / u)) * u
      in if 2 ^ 1024 \<le> \<bar>y\<bar> then (if x < 0 then NInf else PInf)
         else if y = 0 then (if x < 0 then NZero else Fin 0)
         else Fin y)"

text \<open>The doubles that the literals \<open>Math.PI\<close>, \<open>1e-9\<close> and \<open>9.80665\<close> denote.\<close>

definition PI_d :: real where
  "PI_d = 884279719003555 / 2 ^ 48"

definition floor_1e9 :: jnum where
  "floor_1e9 = Fin (4835703278458517 / 2 ^ 82)"

definition MS2_PER_G :: jnum where
  "MS2_PER_G = Fin (5520653160719109 / 2 ^ 49)"

text \<open>
  What the model takes from the runtime as it is: \<open>StringToNumber\<close>, and the values of
  \<open>Math.sin\<close>, \<open>Math.cos\<close> and \<open>Math.atan2\<close> at finite arguments other than zero, which
  ECMA-262 leaves to the implementation (they are approximations).
\<close>

record runtime =
  s2n :: "string \<Rightarrow> jnum"
  sin_rt :: "real \<Rightarrow> real"
  cos_rt :: "real \<Rightarrow> real"
  atan2_rt :: "real \<Rightarrow> real \<Rightarrow> real"

fun is_nan :: "jnum \<Rightarrow> bool" where
  "is_nan NaN = True"
| "is_nan _ = False"

fun is_inf :: "jnum \<Rightarrow> bool" where
  "is_inf PInf = True"
| "is_inf NInf = True"
| "is_inf _ = False"

fun is_zero :: "jnum \<Rightarrow> bool" where
  "is_zero NZero = True"
| "is_zero (Fin x) = (x = 0)"
| "is_zero _ = False"

text \<open>\<open>Number.isFinite\<close>.\<close>

fun isFinite :: "jnum \<Rightarrow> bool" where
  "isFinite (Fin _) = True"
| "isFinite NZero = True"
| "isFinite _ = False"

text \<open>The value of a finite number, and the sign bit of a number.\<close>

fun fval :: "jnum \<Rightarrow> real" where
  "fval (Fin x) = x"
| "fval _ = 0"

fun sign_bit :: "jnum \<Rightarrow> bool" where
  "sign_bit NInf = True"
| "sign_bit NZero = True"
| "sign_bit (Fin x) = (x < 0)"
| "sign_bit _ = False"

definition signed_inf :: "bool \<Rightarrow> jnum" where
  "signed_inf negative = (if negative then NInf else PInf)"

definition signed_zero :: "bool \<Rightarrow> jnum" where
  "signed_zero negative = (if negative then NZero else Fin 0)"

text \<open>
  The arithmetic of IEEE 754, round to nearest: the exact result, rounded; an exact zero
  result takes the sign the standard gives it.
\<close>

fun fneg :: "jnum \<Rightarrow> jnum" where
  "fneg NaN = NaN"
| "fneg PInf = NInf"
| "fneg NInf = PInf"
| "fneg NZero = Fin 0"
| "fneg (Fin x) = (if x = 0 then NZero else Fin (- x))"

definition fadd :: "jnum \<Rightarrow> jnum \<Rightarrow> jnum" where
  "fadd a b =
     (if is_nan a \<or> is_nan b then NaN
      else if is_inf a then (if is_inf b \<and> a \<noteq> b then NaN else a)
      else if is_inf b then b
      else if fval a + fval b = 0 then signed_zero (sign_bit a \<and> sign_bit b)
      else rnd (fval a + fval b))"

definition fsub :: "jnum \<Rightarrow> jnum \<Rightarrow> jnum" where
  "fsub a b = fadd a (fneg b)"

definition fmul :: "jnum \<Rightarrow> jnum \<Rightarrow> jnum" where
  "fmul a b =
     (if is_nan a \<or> is_nan b then NaN
      else if is_inf a \<or> is_inf b
        then (if is_zero a \<or> is_zero b then NaN else signed_inf (sign_bit a \<noteq> sign_bit b))
      else if fval a * fval b = 0 then signed_zero (sign_bit a \<noteq> sign_bit b)
      else rnd (fval a * fval b))"

definition fdiv :: "jnum \<Rightarrow> jnum \<Rightarrow> jnum" where
  "fdiv a b =
     (if is_nan a \<or> is_nan b then NaN
      else if is_inf a then (if is_inf b then NaN else signed_inf (sign_bit a \<noteq> sign_bit b))
      else if is_inf b then signed_zero (sign_bit a \<noteq> sign_bit b)
      else if is_zero b
        then (if is_zero a then NaN else signed_inf (sign_bit a \<noteq> sign_bit b))
      else if is_zero a then signed_zero (sign_bit a \<noteq> sign_bit b)
      else rnd (fval a / fval b))"

text \<open>\<open>Math.sqrt\<close>, correctly rounded as the square root of IEEE 754 is.\<close>

fun fsqrt :: "jnum \<Rightarrow> jnum" where
  "fsqrt NaN = NaN"
| "fsqrt PInf = PInf"
| "fsqrt NInf = NaN"
| "fsqrt NZero = NZero"
| "fsqrt (Fin x) = (if x < 0 then NaN else if x = 0 then Fin 0 else rnd (sqrt x))"

fun fabs :: "jnum \<Rightarrow> jnum" where
  "fabs NaN = NaN"
| "fabs PInf = PInf"
| "fabs NInf = PInf"
| "fabs NZero = Fin 0"
| "fabs (Fin x) = Fin \<bar>x\<bar>"

text \<open>
  \<open>a < b\<close> and \<open>a > b\<close> of JavaScript: false as soon as one side is NaN; the two zeros are
  equal.
\<close>

definition flt :: "jnum \<Rightarrow> jnum \<Rightarrow> bool" where
  "flt a b =
     (if is_nan a \<or> is_nan b then False
      else if a = PInf \<or> b = NInf then False
      else if a = NInf \<or> b = PInf then True
      else fval a < fval b)"

definition fgt :: "jnum \<Rightarrow> jnum \<Rightarrow> bool" where
  "fgt a b = flt b a"

text \<open>
  \<open>Math.max(a, b)\<close>: NaN as soon as one argument is NaN; positive zero is larger than
  negative zero.
\<close>

definition fmax :: "jnum \<Rightarrow> jnum \<Rightarrow> jnum" where
  "fmax a b =
     (if is_nan a \<or> is_nan b then NaN
      else if flt a b then b
      else if flt b a then a
      else if a = NZero then b
      else a)"

text \<open>
  \<open>Math.sin\<close> and \<open>Math.cos\<close>: NaN at NaN and at the infinities; at a zero the sine is that
  zero and the cosine is 1; elsewhere the runtime's value.
\<close>

definition fsin :: "runtime \<Rightarrow> jnum \<Rightarrow> jnum" where
  "fsin rt x =
     (if is_nan x \<or> is_inf x then NaN
      else if is_zero x then x
      else Fin (sin_rt rt (fval x)))"

definition fcos :: "runtime \<Rightarrow> jnum \<Rightarrow> jnum" where
  "fcos rt x =
     (if is_nan x \<or> is_inf x then NaN
      else if is_zero x then Fin 1
      else Fin (cos_rt rt (fval x)))"

text \<open>
  \<open>Math.atan2(y, x)\<close>, with the table of ECMA-262 for NaN, the zeros and the infinities;
  the multiples of a quarter of \<open>\<pi>\<close> in that table are the doubles nearest to them. At
  finite arguments other than zero the value is the runtime's.
\<close>

definition fatan2 :: "runtime \<Rightarrow> jnum \<Rightarrow> jnum \<Rightarrow> jnum" where
  "fatan2 rt y x =
     (if is_nan y \<or> is_nan x then NaN
      else if y = PInf
        then (if x = PInf then Fin (PI_d / 4) else if x = NInf then Fin (3 * PI_d / 4)
              else Fin (PI_d / 2))
      else if y = NInf
        then (if x = PInf then Fin (- PI_d / 4) else if x = NInf then Fin (- 3 * PI_d / 4)
              else Fin (- PI_d / 2))
      else if is_zero y
        then (if sign_bit x then (if sign_bit y then Fin (- PI_d) else Fin PI_d)
              else signed_zero (sign_bit y))
      else if x = PInf then signed_zero (sign_bit y)
      else if x = NInf then (if sign_bit y then Fin (- PI_d) else Fin PI_d)
      else if is_zero x then (if sign_bit y then Fin (- PI_d / 2) else Fin (PI_d / 2))
      else Fin (atan2_rt rt (fval y) (fval x)))"

subsection \<open>Values of a parsed request body\<close>

text \<open>
  The body handed to the handler is what \<open>express.json\<close> or \<open>express.urlencoded\<close> left in
  \<open>req.body\<close>: \<open>undefined\<close> when nothing was parsed, otherwise a value built by
  \<open>JSON.parse\<close> (or by the query-string parser). An object is the list of its own
  properties; a key is looked up at its first occurrence.
\<close>

datatype jv =
    JUndef
  | JNull
  | JBool bool
  | JNum jnum
  | JStr string
  | JArr "jv list"
  | JObj "(string \<times> jv) list"

text \<open>Truthiness, as used by \<open>||\<close>, \<open>&&\<close> and \<open>if\<close>.\<close>

fun truthy_num :: "jnum \<Rightarrow> bool" where
  "truthy_num NaN = False"
| "truthy_num NZero = False"
| "truthy_num (Fin x) = (x \<noteq> 0)"
| "truthy_num _ = True"

fun truthy :: "jv \<Rightarrow> bool" where
  "truthy JUndef = False"
| "truthy JNull = False"
| "truthy (JBool b) = b"
| "truthy (JNum n) = truthy_num n"
| "truthy (JStr s) = (s \<noteq> [])"
| "truthy (JArr _) = True"
| "truthy (JObj _) = True"

text \<open>\<open>a || b\<close> on values and on numbers.\<close>

definition or_js :: "jv \<Rightarrow> jv \<Rightarrow> jv" where
  "or_js a b = (if truthy a then a else b)"

definition or_num :: "jnum \<Rightarrow> jnum \<Rightarrow> jnum" where
  "or_num a b = (if truthy_num a then a else b)"

text \<open>
  A computation that may throw: \<open>None\<close> is a thrown TypeError. The handler catches every
  exception in one place, so the model keeps no more than the fact that one was thrown.
\<close>

type_synonym 'a js = "'a option"

text \<open>
  Property read \<open>v.k\<close> for the property names the handler uses (temperature, humidity,
  accel, gyro, lat, lon, x, y, z). Reading a property of \<open>undefined\<close> or \<open>null\<close> throws.
  None of these names is defined on a prototype, so an object yields its own property or
  \<open>undefined\<close>, and a boolean, number, string or array yields \<open>undefined\<close>.
\<close>

fun getp :: "jv \<Rightarrow> string \<Rightarrow> jv js" where
  "getp JUndef k = None"
| "getp JNull k = None"
| "getp (JObj kvs) k = (case map_of kvs k of None \<Rightarrow> Some JUndef | Some v \<Rightarrow> Some v)"
| "getp _ k = Some JUndef"

text \<open>
  \<open>ToString\<close> of a parsed value throws exactly when the conversion reaches an object with
  an own property \<open>toString\<close>: that property hides \<open>Object.prototype.toString\<close>, is not
  callable (it is parsed data), and \<open>valueOf\<close> returns the object itself, so
  \<open>OrdinaryToPrimitive\<close> ends in a TypeError. An array is converted by \<open>join\<close>, which
  converts its elements.
\<close>

fun str_throws :: "jv \<Rightarrow> bool" where
  "str_throws (JObj kvs) = (map_of kvs ''toString'' \<noteq> None)"
| "str_throws (JArr vs) = list_ex str_throws vs"
| "str_throws _ = False"

text \<open>
  \<open>Number(String(v))\<close> for an array element \<open>v\<close> whose conversion does not throw. A number survives
  the round trip through its decimal form, but for negative zero, which is written "0";
  \<open>join\<close> writes \<open>null\<close> and \<open>undefined\<close> as the empty string,
  which reads as 0; "true", "false", "[object Object]" and every string with a comma
  (two elements or more) read as NaN.
\<close>

fun joined_number :: "runtime \<Rightarrow> jv \<Rightarrow> jnum" where
  "joined_number rt JUndef = Fin 0"
| "joined_number rt JNull = Fin 0"
| "joined_number rt (JBool b) = NaN"
| "joined_number rt (JNum n) = (if n = NZero then Fin 0 else n)"
| "joined_number rt (JStr s) = s2n rt s"
| "joined_number rt (JObj kvs) = NaN"
| "joined_number rt (JArr []) = Fin 0"
| "joined_number rt (JArr [v]) = joined_number rt v"
| "joined_number rt (JArr (v # w # vs)) = NaN"

text \<open>\<open>Number(v)\<close>.\<close>

fun Number :: "runtime \<Rightarrow> jv \<Rightarrow> jnum js" where
  "Number rt JUndef = Some NaN"
| "Number rt JNull = Some (Fin 0)"
| "Number rt (JBool b) = Some (Fin (if b then 1 else 0))"
| "Number rt (JNum n) = Some n"
| "Number rt (JStr s) = Some (s2n rt s)"
| "Number rt (JObj kvs) = (if str_throws (JObj kvs) then None else Some NaN)"
| "Number rt (JArr vs) =
     (if str_throws (JArr vs) then None else Some (joined_number rt (JArr vs)))"

text \<open>\<open>typeof v === 'number' ? v : null\<close>.\<close>

fun number_or_null :: "jv \<Rightarrow> jnum option" where
  "number_or_null (JNum n) = Some n"
| "number_or_null _ = None"

section \<open>The kinematics helpers\<close>

definition toRadians :: "jnum \<Rightarrow> jnum" where
  "toRadians deg = fdiv (fmul deg (Fin PI_d)) (Fin 180)"

definition toDegrees :: "jnum \<Rightarrow> jnum" where
  "toDegrees rad = fdiv (fmul rad (Fin 180)) (Fin PI_d)"

definition haversineDistanceMeters ::
  "runtime \<Rightarrow> jnum \<Rightarrow> jnum \<Rightarrow> jnum \<Rightarrow> jnum \<Rightarrow> jnum" where
  "haversineDistanceMeters rt lat1 lon1 lat2 lon2 =
     (let R = Fin 6371000;
          dLat = toRadians (fsub lat2 lat1);
          dLon = toRadians (fsub lon2 lon1);
          a = fadd (fmul (fsin rt (fdiv dLat (Fin 2))) (fsin rt (fdiv dLat (Fin 2))))
                (fmul (fmul (fmul (fcos rt (toRadians lat1)) (fcos rt (toRadians lat2)))
                         (fsin rt (fdiv dLon (Fin 2))))
                   (fsin rt (fdiv dLon (Fin 2))));
          c = fmul (Fin 2) (fatan2 rt (fsqrt a) (fsqrt (fsub (Fin 1) a)))
      in fmul R c)"

section \<open>The state of the server and the readings\<close>

text \<open>
  The object \<open>reading\<close> built by the POST handler. \<open>temperature\<close>, \<open>humidity\<close>, \<open>lat\<close> and
  \<open>lon\<close> hold a number or \<open>null\<close> (\<open>None\<close>); \<open>accel\<close> and \<open>gyro\<close> hold whatever value the
  body carried when it was truthy, and \<open>null\<close> (\<open>JNull\<close>) otherwise.
\<close>

record reading =
  temperature :: "jnum option"
  humidity :: "jnum option"
  accel :: jv
  gyro :: jv
  lat :: "jnum option"
  lon :: "jnum option"
  timestamp :: int

text \<open>\<open>'m_s'\<close> and \<open>'m_s2'\<close>, the two values \<open>intensityUnit\<close> takes besides \<open>null\<close>.\<close>

datatype iunit = M_S | M_S2

text \<open>
  The alert messages, in the order of their \<open>alerts.push\<close> calls in the source:
  "DANGEROUS: Temperature extremely high", "High temperature detected",
  "Temperature below freezing", "Humidity critically high", "Humidity very low",
  "Sudden high movement speed detected", "Device might be tilted or falling",
  "Sudden impact/shock detected!" (each preceded by a pictograph in the source).
\<close>

datatype alert =
    TempDangerous
  | TempHigh
  | TempFreezing
  | HumidityHigh
  | HumidityLow
  | HighSpeed
  | TiltedOrFalling
  | ImpactShock

text \<open>The object stored in \<open>latestReading\<close>: the fields of the reading and the derived ones.\<close>

record enriched = reading +
  intensity :: "jnum option"
  intensityUnit :: "iunit option"
  pitch :: "jnum option"
  roll :: "jnum option"
  alerts :: "alert list"

text \<open>The two module variables, both \<open>null\<close> when the server starts.\<close>

record server_state =
  previousReading :: "reading option"
  latestReading :: "enriched option"

definition initial_state :: server_state where
  "initial_state = \<lparr>previousReading = None, latestReading = None\<rparr>"

text \<open>What a handler sends: the status and the JSON object.\<close>

datatype payload =
    OkTrue
  | InvalidPayload
  | OkData "enriched option"

datatype response = Response nat payload

section \<open>POST /api/readings\<close>

text \<open>Lines 51 to 59: the reading built from the body, stamped with \<open>Date.now()\<close>.\<close>

definition mk_reading :: "int \<Rightarrow> jv \<Rightarrow> reading js" where
  "mk_reading now body = do {
     t \<leftarrow> getp body ''temperature'';
     h \<leftarrow> getp body ''humidity'';
     a \<leftarrow> getp body ''accel'';
     g \<leftarrow> getp body ''gyro'';
     la \<leftarrow> getp body ''lat'';
     lo \<leftarrow> getp body ''lon'';
     Some \<lparr>temperature = number_or_null t,
           humidity = number_or_null h,
           accel = or_js a JNull,
           gyro = or_js g JNull,
           lat = number_or_null la,
           lon = number_or_null lo,
           timestamp = now\<rparr>
   }"

text \<open>Lines 69 to 75: the condition of the GPS branch.\<close>

definition gps_cond :: "reading option \<Rightarrow> reading \<Rightarrow> bool" where
  "gps_cond prev rd \<longleftrightarrow>
     lat rd \<noteq> None \<and> lon rd \<noteq> None \<and>
     (case prev of None \<Rightarrow> False | Some p \<Rightarrow> lat p \<noteq> None \<and> lon p \<noteq> None)"

text \<open>
  Lines 76 to 83: the speed between the previous and the current position. The time stamps
  are values of \<open>Date.now()\<close>, integers below \<open>2 ^ 53\<close>: their difference is exact, and
  \<open>Math.max(1, ...)\<close> is the maximum of integers.
\<close>

definition gps_speed ::
  "runtime \<Rightarrow> jnum \<Rightarrow> jnum \<Rightarrow> int \<Rightarrow> jnum \<Rightarrow> jnum \<Rightarrow> int \<Rightarrow> jnum" where
  "gps_speed rt plat plon pts clat clon cts =
     (let dtMs = max 1 (cts - pts);
          dMeters = haversineDistanceMeters rt plat plon clat clon
      in fdiv dMeters (fdiv (Fin (of_int dtMs)) (Fin 1000)))"

text \<open>Lines 61, 62 and 69 to 85: \<open>intensity\<close> and \<open>intensityUnit\<close> after the GPS branch.\<close>

definition gps_block ::
  "runtime \<Rightarrow> reading option \<Rightarrow> reading \<Rightarrow> jnum option \<times> iunit option" where
  "gps_block rt prev rd =
     (case (lat rd, lon rd, prev) of
        (Some clat, Some clon, Some p) \<Rightarrow>
          (case (lat p, lon p) of
             (Some plat, Some plon) \<Rightarrow>
               (Some (gps_speed rt plat plon (timestamp p) clat clon (timestamp rd)), Some M_S)
           | _ \<Rightarrow> (None, None))
      | _ \<Rightarrow> (None, None))"

text \<open>\<open>typeof v === 'number'\<close>.\<close>

fun is_number :: "jv \<Rightarrow> bool" where
  "is_number (JNum _) = True"
| "is_number _ = False"

text \<open>Lines 97 to 100: the acceleration net of gravity, in metres per second squared.\<close>

definition linear_accel :: "jnum \<Rightarrow> jnum \<Rightarrow> jnum \<Rightarrow> jnum" where
  "linear_accel gX gY gZ =
     (let magG = fsqrt (fadd (fadd (fmul gX gX) (fmul gY gY)) (fmul gZ gZ));
          linG = fmax (Fin 0) (fsub magG (Fin 1))
      in fmul linG MS2_PER_G)"

text \<open>
  Lines 104 to 106: the two angles in radians. \<open>denomPitch || 1e-9\<close> and \<open>gZ || 1e-9\<close> are
  the divisors handed to \<open>Math.atan2\<close>: \<open>1e-9\<close> stands in for a zero and for NaN.
\<close>

definition pitch_divisor :: "jnum \<Rightarrow> jnum \<Rightarrow> jnum" where
  "pitch_divisor gY gZ =
     (let denomPitch = fsqrt (fadd (fmul gY gY) (fmul gZ gZ))
      in or_num denomPitch floor_1e9)"

definition roll_divisor :: "jnum \<Rightarrow> jnum" where
  "roll_divisor gZ = or_num gZ floor_1e9"

definition pitchRad :: "runtime \<Rightarrow> jnum \<Rightarrow> jnum \<Rightarrow> jnum \<Rightarrow> jnum" where
  "pitchRad rt gX gY gZ = fatan2 rt gX (pitch_divisor gY gZ)"

definition rollRad :: "runtime \<Rightarrow> jnum \<Rightarrow> jnum \<Rightarrow> jnum" where
  "rollRad rt gY gZ = fatan2 rt (fneg gY) (roll_divisor gZ)"

text \<open>Lines 107 and 108: \<open>Number.isFinite(a) ? toDegrees(a) : null\<close>.\<close>

definition degrees_or_null :: "jnum \<Rightarrow> jnum option" where
  "degrees_or_null a = (if isFinite a then Some (toDegrees a) else None)"

text \<open>
  Lines 87 to 109: the accelerometer block. It receives \<open>intensity\<close> and \<open>intensityUnit\<close>
  as the GPS branch left them and returns them with \<open>pitch\<close> and \<open>roll\<close>.
\<close>

definition accel_block ::
  "runtime \<Rightarrow> reading \<Rightarrow> jnum option \<Rightarrow> iunit option \<Rightarrow>
     (jnum option \<times> iunit option \<times> jnum option \<times> jnum option) js" where
  "accel_block rt rd i0 u0 =
     (if truthy (accel rd) then do {
        x \<leftarrow> getp (accel rd) ''x'';
        if is_number x then do {
          ax \<leftarrow> Number rt x;
          y \<leftarrow> getp (accel rd) ''y'';
          ay \<leftarrow> Number rt y;
          z \<leftarrow> getp (accel rd) ''z'';
          az \<leftarrow> Number rt z;
          let scale = Fin 16384;
          let gX = fdiv ax scale;
          let gY = fdiv ay scale;
          let gZ = fdiv az scale;
          let (i, u) = (if i0 = None then (Some (linear_accel gX gY gZ), Some M_S2)
                        else (i0, u0));
          Some (i, u, degrees_or_null (pitchRad rt gX gY gZ),
                degrees_or_null (rollRad rt gY gZ))
        } else Some (i0, u0, None, None)
      } else Some (i0, u0, None, None))"

text \<open>Lines 114 to 122.\<close>

definition temperature_alerts :: "reading \<Rightarrow> alert list" where
  "temperature_alerts rd =
     (case temperature rd of
        None \<Rightarrow> []
      | Some t \<Rightarrow>
          if fgt t (Fin 50) then [TempDangerous]
          else if fgt t (Fin 40) then [TempHigh]
          else if flt t (Fin 0) then [TempFreezing]
          else [])"

text \<open>Lines 124 to 130.\<close>

definition humidity_alerts :: "reading \<Rightarrow> alert list" where
  "humidity_alerts rd =
     (case humidity rd of
        None \<Rightarrow> []
      | Some h \<Rightarrow>
          if fgt h (Fin 90) then [HumidityHigh]
          else if flt h (Fin 20) then [HumidityLow]
          else [])"

text \<open>Lines 132 to 134.\<close>

definition speed_alerts :: "jnum option \<Rightarrow> iunit option \<Rightarrow> alert list" where
  "speed_alerts i u =
     (case i of
        Some v \<Rightarrow> if u = Some M_S \<and> fgt v (Fin 20) then [HighSpeed] else []
      | None \<Rightarrow> [])"

text \<open>Lines 137 to 139: \<open>Math.abs(Number(v || 0))\<close>.\<close>

definition abs_count :: "runtime \<Rightarrow> jv \<Rightarrow> jnum js" where
  "abs_count rt v = do { n \<leftarrow> Number rt (or_js v (JNum (Fin 0))); Some (fabs n) }"

text \<open>Lines 136 to 151.\<close>

definition impact_alerts :: "runtime \<Rightarrow> reading \<Rightarrow> alert list js" where
  "impact_alerts rt rd =
     (if truthy (accel rd) then do {
        x \<leftarrow> getp (accel rd) ''x'';
        axAbs \<leftarrow> abs_count rt x;
        y \<leftarrow> getp (accel rd) ''y'';
        ayAbs \<leftarrow> abs_count rt y;
        z \<leftarrow> getp (accel rd) ''z'';
        azAbs \<leftarrow> abs_count rt z;
        let total = fsqrt (fadd (fadd (fmul axAbs axAbs) (fmul ayAbs ayAbs)) (fmul azAbs azAbs));
        Some ((if flt azAbs (Fin 12000) then [TiltedOrFalling] else []) @
              (if fgt total (Fin 15000) then [ImpactShock] else []))
      } else Some [])"

text \<open>
  Lines 48 to 153: everything the handler computes before it touches the state, from the
  previous reading, the clock and the request body. The result is the pair of \<open>reading\<close>
  and the object \<open>{...reading, intensity, intensityUnit, pitch, roll, alerts}\<close>; \<open>None\<close>
  means that an exception reached the \<open>catch\<close>.
\<close>

definition enrich ::
  "runtime \<Rightarrow> reading option \<Rightarrow> int \<Rightarrow> jv \<Rightarrow> (reading \<times> enriched) js" where
  "enrich rt prev now req_body = do {
     let body = or_js req_body (JObj []);
     rd \<leftarrow> mk_reading now body;
     let (i0, u0) = gps_block rt prev rd;
     (i, u, p, r) \<leftarrow> accel_block rt rd i0 u0;
     impact \<leftarrow> impact_alerts rt rd;
     let al = temperature_alerts rd @ humidity_alerts rd @ speed_alerts i u @ impact;
     Some (rd,
           \<lparr>temperature = temperature rd, humidity = humidity rd, accel = accel rd,
            gyro = gyro rd, lat = lat rd, lon = lon rd, timestamp = timestamp rd,
            intensity = i, intensityUnit = u, pitch = p, roll = r, alerts = al\<rparr>)
   }"

text \<open>
  The handler: on success both variables are assigned (lines 153, 154) and the answer is
  200 \<open>{ok: true}\<close>; when an exception was caught neither is assigned and the answer is
  400 \<open>{ok: false, error: 'Invalid payload'}\<close>.
\<close>

definition post_readings ::
  "runtime \<Rightarrow> server_state \<Rightarrow> int \<Rightarrow> jv \<Rightarrow> server_state \<times> response" where
  "post_readings rt st now req_body =
     (case enrich rt (previousReading st) now req_body of
        Some (rd, e) \<Rightarrow>
          (\<lparr>previousReading = Some rd, latestReading = Some e\<rparr>, Response 200 OkTrue)
      | None \<Rightarrow> (st, Response 400 InvalidPayload))"

section \<open>GET /api/latest\<close>

definition get_latest :: "server_state \<Rightarrow> response" where
  "get_latest st = Response 200 (OkData (latestReading st))"

section \<open>Runs of the server\<close>

text \<open>
  The state after a sequence of POST requests, each with the clock value at which it is
  handled. GET /api/latest and /health assign nothing, so they do not appear.
\<close>

fun run :: "runtime \<Rightarrow> server_state \<Rightarrow> (int \<times> jv) list \<Rightarrow> server_state" where
  "run rt st [] = st"
| "run rt st ((now, req_body) # rs) = run rt (fst (post_readings rt st now req_body)) rs"

section \<open>Notions used to state the properties\<close>

text \<open>\<open>req.body || {}\<close>, the body the handler works on.\<close>

definition body_of :: "jv \<Rightarrow> jv" where
  "body_of req_body = or_js req_body (JObj [])"

text \<open>The value of \<open>v.k\<close> for a \<open>v\<close> whose properties can be read.\<close>

definition field_of :: "jv \<Rightarrow> string \<Rightarrow> jv" where
  "field_of v k = (case getp v k of Some w \<Rightarrow> w | None \<Rightarrow> JUndef)"

text \<open>The reading that lines 51 to 59 build from a body whose properties can be read.\<close>

definition coerced :: "int \<Rightarrow> jv \<Rightarrow> reading" where
  "coerced now body =
     \<lparr>temperature = number_or_null (field_of body ''temperature''),
      humidity = number_or_null (field_of body ''humidity''),
      accel = or_js (field_of body ''accel'') JNull,
      gyro = or_js (field_of body ''gyro'') JNull,
      lat = number_or_null (field_of body ''lat''),
      lon = number_or_null (field_of body ''lon''),
      timestamp = now\<rparr>"

text \<open>Line 153: \<open>{...reading, intensity, intensityUnit, pitch, roll, alerts}\<close>.\<close>

definition assemble ::
  "reading \<Rightarrow> jnum option \<Rightarrow> iunit option \<Rightarrow> jnum option \<Rightarrow> jnum option \<Rightarrow> alert list \<Rightarrow>
     enriched" where
  "assemble rd i u p r al =
     \<lparr>temperature = temperature rd, humidity = humidity rd, accel = accel rd,
      gyro = gyro rd, lat = lat rd, lon = lon rd, timestamp = timestamp rd,
      intensity = i, intensityUnit = u, pitch = p, roll = r, alerts = al\<rparr>"

text \<open>The fields of an enriched reading that come from the reading it was built from.\<close>

definition raw_of :: "enriched \<Rightarrow> reading" where
  "raw_of e =
     \<lparr>temperature = temperature e, humidity = humidity e, accel = accel e, gyro = gyro e,
      lat = lat e, lon = lon e, timestamp = timestamp e\<rparr>"

text \<open>
  The invariant of the two variables: when \<open>latestReading\<close> is set, \<open>previousReading\<close> is
  the reading it was built from.
\<close>

definition state_inv :: "server_state \<Rightarrow> bool" where
  "state_inv st \<longleftrightarrow>
     (case latestReading st of
        None \<Rightarrow> True
      | Some e \<Rightarrow> previousReading st = Some (raw_of e))"

text \<open>Line 87: the condition of the accelerometer block.\<close>

definition accel_cond :: "reading \<Rightarrow> bool" where
  "accel_cond rd \<longleftrightarrow> truthy (accel rd) \<and> is_number (field_of (accel rd) ''x'')"

text \<open>An \<open>accel\<close> value on which one of the \<open>Number(...)\<close> conversions throws.\<close>

definition throwing_accel :: "jv \<Rightarrow> bool" where
  "throwing_accel a \<longleftrightarrow>
     truthy a \<and>
     (str_throws (field_of a ''x'') \<or> str_throws (field_of a ''y'') \<or>
      str_throws (field_of a ''z''))"

text \<open>\<open>undefined\<close>, \<open>null\<close>, a boolean, a number or a string.\<close>

fun primitive :: "jv \<Rightarrow> bool" where
  "primitive (JArr _) = False"
| "primitive (JObj _) = False"
| "primitive _ = True"

fun is_object :: "jv \<Rightarrow> bool" where
  "is_object (JObj _) = True"
| "is_object _ = False"

text \<open>
  An \<open>accel\<close> field that is falsy, or whose \<open>x\<close>, \<open>y\<close> and \<open>z\<close> are each missing or a
  primitive value.
\<close>

definition benign_accel :: "jv \<Rightarrow> bool" where
  "benign_accel a \<longleftrightarrow>
     \<not> truthy a \<or>
     primitive (field_of a ''x'') \<and> primitive (field_of a ''y'') \<and> primitive (field_of a ''z'')"

section \<open>Sample inputs\<close>

text \<open>
  An instance of the string conversion for evaluating the handler on concrete bodies: it
  agrees with \<open>StringToNumber\<close> on the empty string, and the sample bodies hold no other
  string at a place where it is converted.
\<close>

definition s2n_sample :: "string \<Rightarrow> jnum" where
  "s2n_sample s = (if s = [] then Fin 0 else NaN)"

text \<open>
  An instance of the three functions of \<open>Math\<close>: the exact sine, cosine and arc tangent. A
  runtime returns doubles close to them.
\<close>

definition atan2_exact :: "real \<Rightarrow> real \<Rightarrow> real" where
  "atan2_exact y x =
     (if 0 < x then arctan (y / x)
      else if x < 0 then (if 0 \<le> y then arctan (y / x) + pi else arctan (y / x) - pi)
      else if 0 < y then pi / 2
      else - pi / 2)"

definition rt_sample :: runtime where
  "rt_sample = \<lparr>s2n = s2n_sample, sin_rt = sin, cos_rt = cos, atan2_rt = atan2_exact\<rparr>"

text \<open>\<open>{"accel": {"x": {"toString": 1}}}\<close>\<close>

definition toString_body :: jv where
  "toString_body = JObj [(''accel'', JObj [(''x'', JObj [(''toString'', JNum (Fin 1))])])]"

text \<open>A state as left by a reading at latitude 0, longitude 0, at time 0.\<close>

definition origin_reading :: reading where
  "origin_reading =
     \<lparr>temperature = None, humidity = None, accel = JNull, gyro = JNull,
      lat = Some (Fin 0), lon = Some (Fin 0), timestamp = 0\<rparr>"


text \<open>\<open>{"temperature": 60}\<close> at time 7, and what the handler makes of it.\<close>

definition hot_body :: jv where
  "hot_body = JObj [(''temperature'', JNum (Fin 60))]"

definition hot_reading :: reading where
  "hot_reading =
     \<lparr>temperature = Some (Fin 60), humidity = None, accel = JNull, gyro = JNull,
      lat = None, lon = None, timestamp = 7\<rparr>"

definition hot_enriched :: enriched where
  "hot_enriched = assemble hot_reading None None None None [TempDangerous]"

text \<open>
  \<open>{"lat": 0, "lon": 1, "accel": {"x": 0, "y": 0, "z": 16384}}\<close> at time 1000, after the
  reading at the origin.
\<close>

definition gps_accel_body :: jv where
  "gps_accel_body =
     JObj [(''lat'', JNum (Fin 0)), (''lon'', JNum (Fin 1)),
           (''accel'', JObj [(''x'', JNum (Fin 0)), (''y'', JNum (Fin 0)),
                             (''z'', JNum (Fin 16384))])]"

definition gps_accel_reading :: reading where
  "gps_accel_reading =
     \<lparr>temperature = None, humidity = None,
      accel = JObj [(''x'', JNum (Fin 0)), (''y'', JNum (Fin 0)), (''z'', JNum (Fin 16384))],
      gyro = JNull, lat = Some (Fin 0), lon = Some (Fin 1), timestamp = 1000\<rparr>"

definition gps_accel_enriched :: enriched where
  "gps_accel_enriched =
     assemble gps_accel_reading
       (Some (gps_speed rt_sample (Fin 0) (Fin 0) 0 (Fin 0) (Fin 1) 1000)) (Some M_S)
       (Some (Fin 0)) (Some NZero)
       (speed_alerts (Some (gps_speed rt_sample (Fin 0) (Fin 0) 0 (Fin 0) (Fin 1) 1000))
          (Some M_S) @ [ImpactShock])"

text \<open>
  \<open>{"lat": 0, "lon": 0, "accel": {"x": 0, "y": 0, "z": 16384}}\<close> at time 1000, after the
  reading at the origin: the device has not moved.
\<close>

definition same_place_body :: jv where
  "same_place_body =
     JObj [(''lat'', JNum (Fin 0)), (''lon'', JNum (Fin 0)),
           (''accel'', JObj [(''x'', JNum (Fin 0)), (''y'', JNum (Fin 0)),
                             (''z'', JNum (Fin 16384))])]"

definition same_place_reading :: reading where
  "same_place_reading =
     \<lparr>temperature = None, humidity = None,
      accel = JObj [(''x'', JNum (Fin 0)), (''y'', JNum (Fin 0)), (''z'', JNum (Fin 16384))],
      gyro = JNull, lat = Some (Fin 0), lon = Some (Fin 0), timestamp = 1000\<rparr>"

definition same_place_enriched :: enriched where
  "same_place_enriched =
     assemble same_place_reading (Some (Fin 0)) (Some M_S) (Some (Fin 0)) (Some NZero)
       [ImpactShock]"

text \<open>\<open>{"accel": {"x": 0, "y": 0, "z": 16384}}\<close> at time 3: the device at rest, no position.\<close>

definition rest_body :: jv where
  "rest_body = JObj [(''accel'', JObj [(''x'', JNum (Fin 0)), (''y'', JNum (Fin 0)),
                                       (''z'', JNum (Fin 16384))])]"

definition rest_reading :: reading where
  "rest_reading =
     \<lparr>temperature = None, humidity = None,
      accel = JObj [(''x'', JNum (Fin 0)), (''y'', JNum (Fin 0)), (''z'', JNum (Fin 16384))],
      gyro = JNull, lat = None, lon = None, timestamp = 3\<rparr>"

definition rest_enriched :: enriched where
  "rest_enriched =
     assemble rest_reading (Some (Fin 0)) (Some M_S2) (Some (Fin 0)) (Some NZero)
       [ImpactShock]"










text \<open>\<open>{"temperature": 45, "accel": {"x": 20000, "y": 0, "z": 0}}\<close>\<close>

definition impact_body :: jv where
  "impact_body =
     JObj [(''temperature'', JNum (Fin 45)),
           (''accel'', JObj [(''x'', JNum (Fin 20000)), (''y'', JNum (Fin 0)),
                             (''z'', JNum (Fin 0))])]"

text \<open>\<open>{"accel": {"x": 0, "y": 0, "z": 0}}\<close>\<close>

definition zero_body :: jv where
  "zero_body = JObj [(''accel'', JObj [(''x'', JNum (Fin 0)), (''y'', JNum (Fin 0)),
                                       (''z'', JNum (Fin 0))])]"

text \<open>
  \<open>{"temperature": "hot", "humidity": [], "lat": null, "gyro": {"toString": 1},
  "accel": {"x": 1, "y": true, "z": null}}\<close> and the reading built from it at time 0.
\<close>

definition malformed_body :: jv where
  "malformed_body =
     JObj [(''temperature'', JStr ''hot''), (''humidity'', JArr []), (''lat'', JNull),
           (''gyro'', JObj [(''toString'', JNum (Fin 1))]),
           (''accel'', JObj [(''x'', JNum (Fin 1)), (''y'', JBool True), (''z'', JNull)])]"

definition malformed_reading :: reading where
  "malformed_reading =
     \<lparr>temperature = None, humidity = None,
      accel = JObj [(''x'', JNum (Fin 1)), (''y'', JBool True), (''z'', JNull)],
      gyro = JObj [(''toString'', JNum (Fin 1))],
      lat = None, lon = None, timestamp = 0\<rparr>"

section \<open>Auxiliary facts\<close>

subsection \<open>Rounding\<close>

lemma round_even_of_int: "round_even (of_int k) = k"
  by (simp add: round_even_def)

lemma exponent_int:
  assumes "n \<noteq> 0" "\<bar>n\<bar> < 2 ^ 53"
  shows "0 \<le> exponent (of_int n)" "exponent (of_int n) \<le> 52"
proof -
  have pos: "1 \<le> \<bar>real_of_int n\<bar>"
    using assms(1) by (simp add: abs_if)
  have lt: "\<bar>real_of_int n\<bar> < 2 ^ 53"
    using assms(2) by (metis of_int_abs of_int_less_numeral_power_cancel_iff)
  have "0 \<le> log 2 \<bar>real_of_int n\<bar>"
    using pos by simp
  then have f0: "0 \<le> \<lfloor>log 2 \<bar>real_of_int n\<bar>\<rfloor>"
    by simp
  have "log 2 \<bar>real_of_int n\<bar> < log 2 (2 ^ 53)"
    using pos lt by (subst log_less_cancel_iff) auto
  moreover have "log 2 ((2::real) ^ 53) = 53"
    by (subst log_nat_power) auto
  ultimately have "log 2 \<bar>real_of_int n\<bar> < 53"
    by (simp only:)
  then have f1: "\<lfloor>log 2 \<bar>real_of_int n\<bar>\<rfloor> < 53"
    by (simp add: floor_less_iff)
  show "0 \<le> exponent (of_int n)" using f0 by (simp add: exponent_def)
  show "exponent (of_int n) \<le> 52" using f0 f1 by (simp add: exponent_def)
qed

text \<open>An integer below \<open>2 ^ 53\<close> in absolute value is a double: rounding leaves it alone.\<close>

lemma rnd_of_int:
  assumes "n \<noteq> 0" "\<bar>n\<bar> < 2 ^ 53"
  shows "rnd (of_int n) = Fin (of_int n)"
proof -
  define e where "e = exponent (of_int n)"
  have e: "0 \<le> e" "e \<le> 52"
    using exponent_int [OF assms] by (simp_all add: e_def)
  define j where "j = nat (52 - e)"
  have u: "pow2 (e - 52) = 1 / 2 ^ j"
    using e by (auto simp: pow2_def j_def)
  have q: "real_of_int n / pow2 (e - 52) = of_int (n * 2 ^ j)"
    by (simp add: u)
  have r: "round_even (real_of_int n / pow2 (e - 52)) = n * 2 ^ j"
    unfolding q by (rule round_even_of_int)
  have y: "of_int (round_even (real_of_int n / pow2 (e - 52))) * pow2 (e - 52) = real_of_int n"
    unfolding r by (simp add: u)
  have lt: "\<bar>real_of_int n\<bar> < 2 ^ 53"
    using assms(2) by (metis of_int_abs of_int_less_numeral_power_cancel_iff)
  have "(2::real) ^ 53 \<le> 2 ^ 1024"
    by (rule power_increasing) auto
  with lt have big: "\<not> 2 ^ 1024 \<le> \<bar>real_of_int n\<bar>"
    by linarith
  show ?thesis
    using assms(1) big by (simp add: rnd_def Let_def e_def[symmetric] y)
qed

lemma rnd_numeral [simp]:
  "numeral k < (2::int) ^ 53 \<Longrightarrow> rnd (numeral k) = Fin (numeral k)"
  using rnd_of_int [of "numeral k"] by simp

lemma rnd_neg_numeral [simp]:
  "numeral k < (2::int) ^ 53 \<Longrightarrow> rnd (- numeral k) = Fin (- numeral k)"
  using rnd_of_int [of "- numeral k"] by simp

lemma rnd_1 [simp]: "rnd 1 = Fin 1"
  using rnd_of_int [of 1] by simp

lemma rnd_m1 [simp]: "rnd (- 1) = Fin (- 1)"
  using rnd_of_int [of "- 1"] by simp

lemma exponent_eq:
  assumes "pow2 e \<le> \<bar>x\<bar>" "\<bar>x\<bar> < pow2 (e + 1)" "- 1022 \<le> e"
  shows "exponent x = e"
proof -
  have p: "pow2 k = 2 powr (of_int k)" for k
    by (simp add: pow2_def powr_real_of_int field_simps)
  have "0 < pow2 e"
    by (simp add: pow2_def)
  with assms(1) have x: "0 < \<bar>x\<bar>"
    by linarith
  have "\<lfloor>log 2 \<bar>x\<bar>\<rfloor> = e"
    using assms(1,2) x by (subst floor_log_eq_powr_iff) (auto simp: p)
  then show ?thesis
    using assms(3) by (simp add: exponent_def)
qed

text \<open>Rounding a real whose binary exponent is known.\<close>

lemma rnd_eval:
  assumes "pow2 e \<le> \<bar>x\<bar>" "\<bar>x\<bar> < pow2 (e + 1)" "- 1022 \<le> e"
  shows "rnd x =
     (let u = pow2 (e - 52);
          y = of_int (round_even (x / u)) * u
      in if 2 ^ 1024 \<le> \<bar>y\<bar> then (if x < 0 then NInf else PInf)
         else if y = 0 then (if x < 0 then NZero else Fin 0)
         else Fin y)"
  by (simp add: rnd_def exponent_eq [OF assms])


text \<open>\<open>(-Math.PI * 180) / Math.PI\<close> is -180 in doubles.\<close>

lemma toDegrees_minus_PI: "toDegrees (Fin (- PI_d)) = Fin (- 180)"
proof -
  have a: "rnd (- (PI_d * 180)) = Fin (- 4974073419394997 / 2 ^ 43)"
    by (subst rnd_eval [of 9]) (simp_all add: PI_d_def pow2_def round_even_def Let_def)
  have b: "rnd (- (4974073419394997 / 2 ^ 43) / PI_d) = Fin (- 180)"
    by (subst rnd_eval [of 7]) (simp_all add: PI_d_def pow2_def round_even_def Let_def)
  have p: "PI_d \<noteq> 0" "\<not> PI_d < 0"
    by (simp_all add: PI_d_def)
  have "fmul (Fin (- PI_d)) (Fin 180) = Fin (- 4974073419394997 / 2 ^ 43)"
    using a p by (simp add: fmul_def)
  then show ?thesis
    using b p by (simp add: toDegrees_def fdiv_def)
qed

lemmas arith = fadd_def fsub_def fmul_def fdiv_def flt_def fgt_def fmax_def fsin_def fcos_def
  fatan2_def signed_zero_def signed_inf_def or_num_def floor_1e9_def MS2_PER_G_def

lemmas ev = enrich_def mk_reading_def or_js_def gps_block_def accel_block_def impact_alerts_def
  temperature_alerts_def humidity_alerts_def speed_alerts_def abs_count_def
  linear_accel_def pitchRad_def rollRad_def pitch_divisor_def roll_divisor_def
  degrees_or_null_def post_readings_def get_latest_def initial_state_def assemble_def Let_def

subsection \<open>What throws\<close>

lemma Number_None_iff: "Number rt v = None \<longleftrightarrow> str_throws v"
  by (cases v) auto

lemma getp_truthy: "truthy v \<Longrightarrow> getp v k = Some (field_of v k)"
  by (cases v) (auto simp: field_of_def split: option.splits)

lemma falsy_not_throws: "\<not> truthy v \<Longrightarrow> \<not> str_throws v"
  by (cases v) auto

lemma is_number_not_throws: "is_number v \<Longrightarrow> \<not> str_throws v"
  by (cases v) auto

lemma primitive_not_throws: "primitive v \<Longrightarrow> \<not> str_throws v"
  by (cases v) auto

lemma abs_count_None_iff: "abs_count rt v = None \<longleftrightarrow> str_throws v"
  by (auto simp: abs_count_def or_js_def Number_None_iff bind_eq_None_conv
        dest: falsy_not_throws)

lemma truthy_body_of: "truthy (body_of req_body)"
  by (simp add: body_of_def or_js_def)

lemma mk_reading_truthy: "truthy body \<Longrightarrow> mk_reading now body = Some (coerced now body)"
  by (simp add: mk_reading_def getp_truthy coerced_def)

lemma mk_reading_body_of:
  "mk_reading now (body_of req_body) = Some (coerced now (body_of req_body))"
  by (simp add: mk_reading_truthy truthy_body_of)

lemma accel_block_None_iff:
  "accel_block rt rd i0 u0 = None \<longleftrightarrow>
     accel_cond rd \<and>
     (str_throws (field_of (accel rd) ''y'') \<or> str_throws (field_of (accel rd) ''z''))"
  by (auto simp: accel_block_def accel_cond_def getp_truthy Number_None_iff Let_def
        bind_eq_None_conv dest: is_number_not_throws)

lemma impact_alerts_None_iff: "impact_alerts rt rd = None \<longleftrightarrow> throwing_accel (accel rd)"
  by (auto simp: impact_alerts_def throwing_accel_def getp_truthy abs_count_None_iff Let_def
        bind_eq_None_conv)

lemma benign_not_throwing: "benign_accel a \<Longrightarrow> \<not> throwing_accel (or_js a JNull)"
  by (auto simp: benign_accel_def throwing_accel_def or_js_def dest: primitive_not_throws)

subsection \<open>The handler, block by block\<close>

lemma enrich_unfold:
  "enrich rt prev now req_body =
     (let rd = coerced now (body_of req_body) in
      case accel_block rt rd (fst (gps_block rt prev rd)) (snd (gps_block rt prev rd)) of
        None \<Rightarrow> None
      | Some (i, u, p, r) \<Rightarrow>
          (case impact_alerts rt rd of
             None \<Rightarrow> None
           | Some impact \<Rightarrow>
               Some (rd, assemble rd i u p r
                 (temperature_alerts rd @ humidity_alerts rd @ speed_alerts i u @ impact))))"
  by (simp add: enrich_def body_of_def[symmetric] mk_reading_body_of assemble_def Let_def
        split: option.splits prod.splits)

text \<open>
  The handler throws exactly when \<open>accel\<close> is truthy and the conversion of one of its
  three components throws.
\<close>

lemma enrich_None_iff:
  "enrich rt prev now req_body = None \<longleftrightarrow>
     throwing_accel (or_js (field_of (body_of req_body) ''accel'') JNull)"
proof -
  define rd where "rd = coerced now (body_of req_body)"
  have acc: "accel rd = or_js (field_of (body_of req_body) ''accel'') JNull"
    by (simp add: rd_def coerced_def)
  have "enrich rt prev now req_body = None \<longleftrightarrow>
          accel_block rt rd (fst (gps_block rt prev rd)) (snd (gps_block rt prev rd)) = None \<or>
          impact_alerts rt rd = None"
    by (simp add: enrich_unfold rd_def Let_def split: option.splits prod.splits)
  also have "\<dots> \<longleftrightarrow> throwing_accel (accel rd)"
    by (auto simp: accel_block_None_iff impact_alerts_None_iff throwing_accel_def
          accel_cond_def)
  finally show ?thesis
    by (simp add: acc)
qed

lemma enrich_SomeD:
  assumes "enrich rt prev now req_body = Some (rd, e)"
  shows "rd = coerced now (body_of req_body)"
    and "\<exists>i u p r impact.
           accel_block rt rd (fst (gps_block rt prev rd)) (snd (gps_block rt prev rd)) =
             Some (i, u, p, r) \<and>
           impact_alerts rt rd = Some impact \<and>
           e = assemble rd i u p r
                 (temperature_alerts rd @ humidity_alerts rd @ speed_alerts i u @ impact)"
  using assms
  by (auto simp: enrich_unfold Let_def split: option.splits prod.splits)

lemma enrich_accel_literal:
  assumes "getp (or_js req_body (JObj [])) ''accel'' = Some (JObj kvs)"
  shows "accel (coerced now (body_of req_body)) = JObj kvs"
  using assms by (simp add: coerced_def body_of_def field_of_def or_js_def)

lemma gps_block_eq:
  "gps_block rt prev rd =
     (if gps_cond prev rd
      then (Some (gps_speed rt (the (lat (the prev))) (the (lon (the prev))) (timestamp (the prev))
                    (the (lat rd)) (the (lon rd)) (timestamp rd)), Some M_S)
      else (None, None))"
  by (auto simp: gps_block_def gps_cond_def split: option.splits)

lemma gps_block_fst_Some: "gps_cond prev rd \<Longrightarrow> fst (gps_block rt prev rd) \<noteq> None"
  by (simp add: gps_block_eq)

lemma accel_block_SomeD:
  assumes "accel_block rt rd i0 u0 = Some (i, u, p, r)"
  shows "accel_cond rd \<Longrightarrow>
           \<exists>ax ay az.
             Number rt (field_of (accel rd) ''x'') = Some ax \<and>
             Number rt (field_of (accel rd) ''y'') = Some ay \<and>
             Number rt (field_of (accel rd) ''z'') = Some az \<and>
             p = degrees_or_null (pitchRad rt (fdiv ax (Fin 16384)) (fdiv ay (Fin 16384))
                   (fdiv az (Fin 16384))) \<and>
             r = degrees_or_null (rollRad rt (fdiv ay (Fin 16384)) (fdiv az (Fin 16384))) \<and>
             i = (if i0 = None
                  then Some (linear_accel (fdiv ax (Fin 16384)) (fdiv ay (Fin 16384))
                         (fdiv az (Fin 16384)))
                  else i0) \<and>
             u = (if i0 = None then Some M_S2 else u0)"
    and "\<not> accel_cond rd \<Longrightarrow> i = i0 \<and> u = u0 \<and> p = None \<and> r = None"
  using assms
  by (auto simp: accel_block_def accel_cond_def getp_truthy Let_def bind_eq_Some_conv
        split: if_splits)

text \<open>The four combinations of the two branch conditions.\<close>

lemma enrich_intensity:
  assumes "enrich rt prev now req_body = Some (rd, e)"
  shows "accel_cond rd \<Longrightarrow> gps_cond prev rd \<Longrightarrow>
           intensity e = fst (gps_block rt prev rd) \<and> intensityUnit e = Some M_S"
    and "accel_cond rd \<Longrightarrow> \<not> gps_cond prev rd \<Longrightarrow>
           intensity e \<noteq> None \<and> intensityUnit e = Some M_S2"
    and "\<not> accel_cond rd \<Longrightarrow> gps_cond prev rd \<Longrightarrow>
           intensity e = fst (gps_block rt prev rd) \<and> intensityUnit e = Some M_S"
    and "\<not> accel_cond rd \<Longrightarrow> \<not> gps_cond prev rd \<Longrightarrow>
           intensity e = None \<and> intensityUnit e = None"
proof -
  obtain i u p r impact where
    ab: "accel_block rt rd (fst (gps_block rt prev rd)) (snd (gps_block rt prev rd)) =
           Some (i, u, p, r)"
    and e: "e = assemble rd i u p r
                 (temperature_alerts rd @ humidity_alerts rd @ speed_alerts i u @ impact)"
    using enrich_SomeD(2) [OF assms] by blast
  have ie: "intensity e = i" "intensityUnit e = u"
    by (simp_all add: e assemble_def)
  show "accel_cond rd \<Longrightarrow> gps_cond prev rd \<Longrightarrow>
           intensity e = fst (gps_block rt prev rd) \<and> intensityUnit e = Some M_S"
    using accel_block_SomeD(1) [OF ab] by (auto simp: ie gps_block_eq)
  show "accel_cond rd \<Longrightarrow> \<not> gps_cond prev rd \<Longrightarrow>
           intensity e \<noteq> None \<and> intensityUnit e = Some M_S2"
    using accel_block_SomeD(1) [OF ab] by (auto simp: ie gps_block_eq)
  show "\<not> accel_cond rd \<Longrightarrow> gps_cond prev rd \<Longrightarrow>
           intensity e = fst (gps_block rt prev rd) \<and> intensityUnit e = Some M_S"
    using accel_block_SomeD(2) [OF ab] by (auto simp: ie gps_block_eq)
  show "\<not> accel_cond rd \<Longrightarrow> \<not> gps_cond prev rd \<Longrightarrow>
           intensity e = None \<and> intensityUnit e = None"
    using accel_block_SomeD(2) [OF ab] by (auto simp: ie gps_block_eq)
qed

lemma post_readings_cases:
  "enrich rt (previousReading st) now req_body = None \<and>
     post_readings rt st now req_body = (st, Response 400 InvalidPayload) \<or>
   (\<exists>rd e. enrich rt (previousReading st) now req_body = Some (rd, e) \<and>
      post_readings rt st now req_body =
        (\<lparr>previousReading = Some rd, latestReading = Some e\<rparr>, Response 200 OkTrue))"
  by (cases "enrich rt (previousReading st) now req_body") (auto simp: post_readings_def)

lemma raw_of_assemble: "raw_of (assemble rd i u p r al) = rd"
  by (simp add: raw_of_def assemble_def)

lemma enrich_raw: "enrich rt prev now req_body = Some (rd, e) \<Longrightarrow> raw_of e = rd"
  using enrich_SomeD(2) [of rt prev now req_body rd e] by (auto simp: raw_of_assemble)

lemma post_readings_inv:
  "state_inv st \<Longrightarrow> state_inv (fst (post_readings rt st now req_body))"
  using post_readings_cases [of rt st now req_body]
  by (auto simp: state_inv_def dest: enrich_raw split: option.splits)

lemma run_inv: "state_inv st \<Longrightarrow> state_inv (run rt st rs)"
  by (induction rs arbitrary: st) (auto simp: post_readings_inv)

subsection \<open>Arithmetic on the sample values\<close>

lemma PI_d_pos: "0 < PI_d" "PI_d \<noteq> 0" "\<not> PI_d < 0"
  by (simp_all add: PI_d_def)

lemma toDegrees_zero: "toDegrees (Fin 0) = Fin 0" "toDegrees NZero = NZero"
  by (simp_all add: toDegrees_def arith PI_d_pos)

lemma sqrt_sq_numeral: "sqrt 268435456 = 16384" "sqrt 400000000 = 20000"
  by (rule real_sqrt_unique; simp)+

lemma counts_to_g:
  "fdiv (Fin 0) (Fin 16384) = Fin 0"
  "fdiv (Fin 16384) (Fin 16384) = Fin 1"
  "fdiv (Fin (- 16384)) (Fin 16384) = Fin (- 1)"
  "fdiv NaN (Fin 16384) = NaN"
  by (simp_all add: arith)

lemma zero_arith:
  "fsub (Fin 0) (Fin 0) = Fin 0"
  "fsub (Fin 1) (Fin 0) = Fin 1"
  "fsub (Fin 1) (Fin 1) = Fin 0"
  "fadd (Fin 0) (Fin 0) = Fin 0"
  "fadd (Fin 0) (Fin 1) = Fin 1"
  "fmul (Fin 0) (Fin 0) = Fin 0"
  "fmul (Fin 1) (Fin 1) = Fin 1"
  "fmul (Fin 1) (Fin 0) = Fin 0"
  "fmul (Fin 2) (Fin 0) = Fin 0"
  "fmul (Fin 6371000) (Fin 0) = Fin 0"
  "fmul (Fin 0) (Fin PI_d) = Fin 0"
  "fdiv (Fin 0) (Fin 2) = Fin 0"
  "fdiv (Fin 0) (Fin 180) = Fin 0"
  "fdiv (Fin 1000) (Fin 1000) = Fin 1"
  "fdiv (Fin 0) (Fin 1) = Fin 0"
  "fsqrt (Fin 0) = Fin 0"
  "fsqrt (Fin 1) = Fin 1"
  "fsin rt (Fin 0) = Fin 0"
  "fcos rt (Fin 0) = Fin 1"
  "fatan2 rt (Fin 0) (Fin 1) = Fin 0"
  by (simp_all add: arith PI_d_pos)

lemma linear_accel_samples:
  "linear_accel (Fin 0) (Fin 0) (Fin 1) = Fin 0"
  "linear_accel (Fin 0) (Fin 0) (Fin (- 1)) = Fin 0"
  "linear_accel (Fin 0) (Fin 0) (Fin 0) = Fin 0"
  "linear_accel (Fin 1) NaN NaN = NaN"
  by (simp_all add: linear_accel_def arith Let_def)

lemma floor_1e9_facts:
  "truthy_num floor_1e9" "\<not> is_nan floor_1e9" "\<not> is_zero floor_1e9" "\<not> sign_bit floor_1e9"
  "\<not> is_inf floor_1e9" "floor_1e9 \<noteq> Fin 0" "floor_1e9 \<noteq> NZero"
  by (simp_all add: floor_1e9_def)

lemma divisor_samples:
  "fsqrt (fadd (fmul (Fin 0) (Fin 0)) (fmul (Fin 0) (Fin 0))) = Fin 0"
  "pitch_divisor (Fin 0) (Fin 0) = floor_1e9"
  "roll_divisor (Fin 0) = floor_1e9"
  "pitch_divisor (Fin 0) (Fin 1) = Fin 1"
  "pitch_divisor (Fin 0) (Fin (- 1)) = Fin 1"
  "pitch_divisor NaN NaN = floor_1e9"
  "roll_divisor (Fin 1) = Fin 1"
  "roll_divisor (Fin (- 1)) = Fin (- 1)"
  "roll_divisor NaN = floor_1e9"
  by (simp_all add: pitch_divisor_def roll_divisor_def or_num_def fadd_def fmul_def
        signed_zero_def Let_def)

lemma atan2_at_zero:
  "fatan2 rt (Fin 0) floor_1e9 = Fin 0"
  "fatan2 rt NZero floor_1e9 = NZero"
  "fatan2 rt NZero (Fin 1) = NZero"
  "fatan2 rt NZero (Fin (- 1)) = Fin (- PI_d)"
  "fatan2 rt NaN x = NaN"
  by (simp_all add: fatan2_def signed_zero_def floor_1e9_facts)

lemma pitch_samples:
  "pitchRad rt (Fin 0) (Fin 0) (Fin 0) = Fin 0"
  "pitchRad rt (Fin 0) (Fin 0) (Fin 1) = Fin 0"
  "pitchRad rt (Fin 0) (Fin 0) (Fin (- 1)) = Fin 0"
  "pitchRad rt (Fin 1) NaN NaN = Fin (atan2_rt rt 1 (4835703278458517 / 2 ^ 82))"
  by (simp_all add: pitchRad_def divisor_samples zero_arith atan2_at_zero)
    (simp add: fatan2_def floor_1e9_def)

lemma roll_samples:
  "rollRad rt (Fin 0) (Fin 0) = NZero"
  "rollRad rt (Fin 0) (Fin 1) = NZero"
  "rollRad rt (Fin 0) (Fin (- 1)) = Fin (- PI_d)"
  "rollRad rt NaN NaN = NaN"
  by (simp_all add: rollRad_def divisor_samples atan2_at_zero)

lemma degrees_samples:
  "degrees_or_null (Fin 0) = Some (Fin 0)"
  "degrees_or_null NZero = Some NZero"
  "degrees_or_null (Fin (- PI_d)) = Some (Fin (- 180))"
  "degrees_or_null NaN = None"
  by (simp_all add: degrees_or_null_def toDegrees_zero toDegrees_minus_PI)


lemma total_samples:
  "fsqrt (fadd (fadd (fmul (Fin 0) (Fin 0)) (fmul (Fin 0) (Fin 0)))
     (fmul (Fin 16384) (Fin 16384))) = Fin 16384"
  "fsqrt (fadd (fadd (fmul (Fin 16384) (Fin 16384)) (fmul (Fin 0) (Fin 0)))
     (fmul (Fin 0) (Fin 0))) = Fin 16384"
  "fsqrt (fadd (fadd (fmul (Fin 20000) (Fin 20000)) (fmul (Fin 0) (Fin 0)))
     (fmul (Fin 0) (Fin 0))) = Fin 20000"
  "fsqrt (fadd (fadd (fmul (Fin 0) (Fin 0)) (fmul (Fin 0) (Fin 0)))
     (fmul (Fin 0) (Fin 0))) = Fin 0"
  by (simp_all add: fadd_def fmul_def signed_zero_def sqrt_sq_numeral)

lemma threshold_samples:
  "flt (Fin 16384) (Fin 12000) = False"
  "flt (Fin 0) (Fin 12000) = True"
  "fgt (Fin 16384) (Fin 15000) = True"
  "fgt (Fin 20000) (Fin 15000) = True"
  "fgt (Fin 0) (Fin 15000) = False"
  "fgt (Fin 0) (Fin 20) = False"
  "fgt (Fin 60) (Fin 50) = True"
  "fgt (Fin 45) (Fin 50) = False"
  "fgt (Fin 45) (Fin 40) = True"
  by (simp_all add: flt_def fgt_def)

lemma haversine_same_place:
  "haversineDistanceMeters rt (Fin 0) (Fin 0) (Fin 0) (Fin 0) = Fin 0"
  by (simp add: haversineDistanceMeters_def toRadians_def Let_def zero_arith)

lemma gps_speed_same_place: "gps_speed rt (Fin 0) (Fin 0) 0 (Fin 0) (Fin 0) 1000 = Fin 0"
  by (simp add: gps_speed_def haversine_same_place Let_def zero_arith)

subsection \<open>The blocks of the handler on the sample values\<close>

lemma abs_count_num:
  "abs_count rt (JNum n) = Some (fabs (if truthy_num n then n else Fin 0))"
  "abs_count rt JUndef = Some (Fin 0)"
  by (simp_all add: abs_count_def or_js_def)

lemma accel_block_numeric:
  assumes "accel rd = JObj [(''x'', JNum ax), (''y'', JNum ay), (''z'', JNum az)]"
  shows "accel_block rt rd i0 u0 =
     Some (if i0 = None
           then Some (linear_accel (fdiv ax (Fin 16384)) (fdiv ay (Fin 16384))
                  (fdiv az (Fin 16384)))
           else i0,
           if i0 = None then Some M_S2 else u0,
           degrees_or_null (pitchRad rt (fdiv ax (Fin 16384)) (fdiv ay (Fin 16384))
             (fdiv az (Fin 16384))),
           degrees_or_null (rollRad rt (fdiv ay (Fin 16384)) (fdiv az (Fin 16384))))"
  by (simp add: accel_block_def assms Let_def)

lemma accel_block_null: "accel rd = JNull \<Longrightarrow> accel_block rt rd i0 u0 = Some (i0, u0, None, None)"
  by (simp add: accel_block_def)

lemma impact_alerts_numeric:
  assumes "truthy a" "getp a ''x'' = Some x" "getp a ''y'' = Some y" "getp a ''z'' = Some z"
    "abs_count rt x = Some axAbs" "abs_count rt y = Some ayAbs" "abs_count rt z = Some azAbs"
    "accel rd = a"
  shows "impact_alerts rt rd =
     Some ((if flt azAbs (Fin 12000) then [TiltedOrFalling] else []) @
           (if fgt (fsqrt (fadd (fadd (fmul axAbs axAbs) (fmul ayAbs ayAbs))
                  (fmul azAbs azAbs))) (Fin 15000)
            then [ImpactShock] else []))"
  using assms by (simp add: impact_alerts_def Let_def)

lemma impact_alerts_samples:
  "accel rd = JObj [(''x'', JNum (Fin 0)), (''y'', JNum (Fin 0)), (''z'', JNum (Fin 16384))] \<Longrightarrow>
     impact_alerts rt rd = Some [ImpactShock]"
  "accel rd = JObj [(''x'', JNum (Fin 0)), (''y'', JNum (Fin 0)), (''z'', JNum (Fin (- 16384)))] \<Longrightarrow>
     impact_alerts rt rd = Some [ImpactShock]"
  "accel rd = JObj [(''y'', JNum (Fin 0)), (''z'', JNum (Fin 16384))] \<Longrightarrow>
     impact_alerts rt rd = Some [ImpactShock]"
  "accel rd = JObj [(''x'', JNum (Fin 16384))] \<Longrightarrow>
     impact_alerts rt rd = Some [TiltedOrFalling, ImpactShock]"
  "accel rd = JObj [(''x'', JNum (Fin 20000)), (''y'', JNum (Fin 0)), (''z'', JNum (Fin 0))] \<Longrightarrow>
     impact_alerts rt rd = Some [TiltedOrFalling, ImpactShock]"
  "accel rd = JObj [(''x'', JNum (Fin 0)), (''y'', JNum (Fin 0)), (''z'', JNum (Fin 0))] \<Longrightarrow>
     impact_alerts rt rd = Some [TiltedOrFalling]"
  "accel rd = JNull \<Longrightarrow> impact_alerts rt rd = Some []"
  by (simp_all add: impact_alerts_numeric [where rt = rt and rd = rd] abs_count_num
        total_samples threshold_samples impact_alerts_def)

lemma enrich_from_blocks:
  assumes "coerced now (body_of req_body) = rd"
    and "gps_block rt prev rd = (i0, u0)"
    and "accel_block rt rd i0 u0 = Some (i, u, p, r)"
    and "impact_alerts rt rd = Some impact"
  shows "enrich rt prev now req_body =
     Some (rd, assemble rd i u p r
       (temperature_alerts rd @ humidity_alerts rd @ speed_alerts i u @ impact))"
  using assms by (simp add: enrich_unfold Let_def)

lemmas sample_bodies = body_of_def or_js_def field_of_def coerced_def

subsection \<open>The handler on the sample inputs\<close>

lemma hot_enrich: "enrich rt_sample None 7 hot_body = Some (hot_reading, hot_enriched)"
proof -
  have c: "coerced 7 (body_of hot_body) = hot_reading"
    by (simp add: sample_bodies hot_body_def hot_reading_def)
  have acc: "accel hot_reading = JNull"
    by (simp add: hot_reading_def)
  have g: "gps_block rt_sample None hot_reading = (None, None)"
    by (simp add: gps_block_def hot_reading_def)
  have al: "temperature_alerts hot_reading = [TempDangerous]"
    "humidity_alerts hot_reading = []" "speed_alerts None None = []"
    by (simp_all add: temperature_alerts_def humidity_alerts_def speed_alerts_def
          hot_reading_def threshold_samples)
  show ?thesis
    using enrich_from_blocks [OF c g accel_block_null [OF acc] impact_alerts_samples(7) [OF acc]]
    by (simp add: al hot_enriched_def)
qed

lemma gps_accel_enrich:
  "enrich rt_sample (Some origin_reading) 1000 gps_accel_body =
     Some (gps_accel_reading, gps_accel_enriched)"
proof -
  have c: "coerced 1000 (body_of gps_accel_body) = gps_accel_reading"
    by (simp add: sample_bodies gps_accel_body_def gps_accel_reading_def)
  have acc: "accel gps_accel_reading =
      JObj [(''x'', JNum (Fin 0)), (''y'', JNum (Fin 0)), (''z'', JNum (Fin 16384))]"
    by (simp add: gps_accel_reading_def)
  have g: "gps_block rt_sample (Some origin_reading) gps_accel_reading =
      (Some (gps_speed rt_sample (Fin 0) (Fin 0) 0 (Fin 0) (Fin 1) 1000), Some M_S)"
    by (simp add: gps_block_def gps_accel_reading_def origin_reading_def)
  have ab: "accel_block rt_sample gps_accel_reading
      (Some (gps_speed rt_sample (Fin 0) (Fin 0) 0 (Fin 0) (Fin 1) 1000)) (Some M_S) =
      Some (Some (gps_speed rt_sample (Fin 0) (Fin 0) 0 (Fin 0) (Fin 1) 1000), Some M_S,
            Some (Fin 0), Some NZero)"
    by (simp add: accel_block_numeric [OF acc] counts_to_g pitch_samples roll_samples
          degrees_samples)
  have al: "temperature_alerts gps_accel_reading = []" "humidity_alerts gps_accel_reading = []"
    by (simp_all add: temperature_alerts_def humidity_alerts_def gps_accel_reading_def)
  show ?thesis
    using enrich_from_blocks [OF c g ab impact_alerts_samples(1) [OF acc]]
    by (simp add: al gps_accel_enriched_def)
qed

lemma same_place_enrich:
  "enrich rt_sample (Some origin_reading) 1000 same_place_body =
     Some (same_place_reading, same_place_enriched)"
proof -
  have c: "coerced 1000 (body_of same_place_body) = same_place_reading"
    by (simp add: sample_bodies same_place_body_def same_place_reading_def)
  have acc: "accel same_place_reading =
      JObj [(''x'', JNum (Fin 0)), (''y'', JNum (Fin 0)), (''z'', JNum (Fin 16384))]"
    by (simp add: same_place_reading_def)
  have g: "gps_block rt_sample (Some origin_reading) same_place_reading =
      (Some (Fin 0), Some M_S)"
    by (simp add: gps_block_def same_place_reading_def origin_reading_def gps_speed_same_place)
  have ab: "accel_block rt_sample same_place_reading (Some (Fin 0)) (Some M_S) =
      Some (Some (Fin 0), Some M_S, Some (Fin 0), Some NZero)"
    by (simp add: accel_block_numeric [OF acc] counts_to_g pitch_samples roll_samples
          degrees_samples)
  have al: "temperature_alerts same_place_reading = []" "humidity_alerts same_place_reading = []"
    "speed_alerts (Some (Fin 0)) (Some M_S) = []"
    by (simp_all add: temperature_alerts_def humidity_alerts_def speed_alerts_def
          same_place_reading_def threshold_samples)
  show ?thesis
    using enrich_from_blocks [OF c g ab impact_alerts_samples(1) [OF acc]]
    by (simp add: al same_place_enriched_def)
qed

lemma rest_enrich:
  "enrich rt_sample (Some origin_reading) 3 rest_body = Some (rest_reading, rest_enriched)"
proof -
  have c: "coerced 3 (body_of rest_body) = rest_reading"
    by (simp add: sample_bodies rest_body_def rest_reading_def)
  have acc: "accel rest_reading =
      JObj [(''x'', JNum (Fin 0)), (''y'', JNum (Fin 0)), (''z'', JNum (Fin 16384))]"
    by (simp add: rest_reading_def)
  have g: "gps_block rt_sample (Some origin_reading) rest_reading = (None, None)"
    by (simp add: gps_block_def rest_reading_def)
  have ab: "accel_block rt_sample rest_reading None None =
      Some (Some (Fin 0), Some M_S2, Some (Fin 0), Some NZero)"
    by (simp add: accel_block_numeric [OF acc] counts_to_g linear_accel_samples pitch_samples
          roll_samples degrees_samples)
  have al: "temperature_alerts rest_reading = []" "humidity_alerts rest_reading = []"
    "speed_alerts (Some (Fin 0)) (Some M_S2) = []"
    by (simp_all add: temperature_alerts_def humidity_alerts_def speed_alerts_def
          rest_reading_def)
  show ?thesis
    using enrich_from_blocks [OF c g ab impact_alerts_samples(1) [OF acc]]
    by (simp add: al rest_enriched_def)
qed




lemma malformed_enrich:
  "\<exists>e. enrich rt_sample None 0 malformed_body = Some (malformed_reading, e)"
proof -
  have "enrich rt_sample None 0 malformed_body \<noteq> None"
    by (simp add: enrich_None_iff malformed_body_def body_of_def or_js_def field_of_def
          throwing_accel_def)
  then obtain rd e where en: "enrich rt_sample None 0 malformed_body = Some (rd, e)"
    by (cases "enrich rt_sample None 0 malformed_body") auto
  have "rd = malformed_reading"
    using enrich_SomeD(1) [OF en]
    by (simp add: coerced_def malformed_body_def malformed_reading_def body_of_def or_js_def
          field_of_def)
  with en show ?thesis by blast
qed

section \<open>When an ingest fails\<close>

text \<open>
  C1, as the spec states it, fails on the handler in both directions. An absent body
  (\<open>undefined\<close>) is replaced by \<open>{}\<close> in line 48 and is answered with 200, and so is a body
  that is an array; and the object \<open>{"accel": {"x": {"toString": 1}}}\<close> is answered with
  400 Invalid payload, because \<open>Number(...)\<close> in line 137 throws on it.
\<close>

theorem ingest_outcome_counterexample:
  "post_readings rt_sample initial_state 0 JUndef =
     (\<lparr>previousReading = Some
          \<lparr>temperature = None, humidity = None, accel = JNull, gyro = JNull, lat = None,
           lon = None, timestamp = 0\<rparr>,
       latestReading = Some
          \<lparr>temperature = None, humidity = None, accel = JNull, gyro = JNull, lat = None,
           lon = None, timestamp = 0, intensity = None, intensityUnit = None, pitch = None,
           roll = None, alerts = []\<rparr>\<rparr>,
      Response 200 OkTrue) \<and>
   snd (post_readings rt_sample initial_state 0 (JArr [JNum (Fin 1)])) = Response 200 OkTrue \<and>
   post_readings rt_sample initial_state 0 toString_body =
     (initial_state, Response 400 InvalidPayload)"
  by (simp add: ev toString_body_def)

text \<open>
  C1, amended. The POST handler answers either 200 \<open>{ok: true}\<close> or 400 Invalid payload,
  and nothing else. It answers 200 when the body is absent (the body is then read as
  \<open>{}\<close>), when the body is not an object, and for every body whose \<open>accel\<close> field is falsy
  or has \<open>x\<close>, \<open>y\<close> and \<open>z\<close> each missing or a primitive value (null, a boolean, a number or
  a string), however many other fields are missing or malformed.
\<close>

theorem ingest_succeeds:
  "(snd (post_readings rt st now req_body) = Response 200 OkTrue \<or>
    snd (post_readings rt st now req_body) = Response 400 InvalidPayload) \<and>
   snd (post_readings rt st now JUndef) = Response 200 OkTrue \<and>
   (\<not> is_object req_body \<longrightarrow> snd (post_readings rt st now req_body) = Response 200 OkTrue) \<and>
   (benign_accel (field_of (body_of req_body) ''accel'') \<longrightarrow>
      snd (post_readings rt st now req_body) = Response 200 OkTrue)"
proof -
  have a: "snd (post_readings rt st now req_body) = Response 200 OkTrue \<or>
    snd (post_readings rt st now req_body) = Response 400 InvalidPayload"
    using post_readings_cases [of rt st now req_body] by auto
  have ok: "snd (post_readings rt st now b) = Response 200 OkTrue"
    if "benign_accel (field_of (body_of b) ''accel'')" for b
  proof -
    have "enrich rt (previousReading st) now b \<noteq> None"
      using benign_not_throwing [OF that] by (simp add: enrich_None_iff)
    then show ?thesis
      using post_readings_cases [of rt st now b] by auto
  qed
  have "benign_accel (field_of (body_of JUndef) ''accel'')"
    by (simp add: benign_accel_def body_of_def or_js_def field_of_def)
  then have b: "snd (post_readings rt st now JUndef) = Response 200 OkTrue"
    by (rule ok)
  have "benign_accel (field_of (body_of req_body) ''accel'')" if "\<not> is_object req_body"
    using that by (cases req_body) (simp_all add: benign_accel_def body_of_def or_js_def field_of_def)
  then have c: "\<not> is_object req_body \<longrightarrow>
      snd (post_readings rt st now req_body) = Response 200 OkTrue"
    using ok by blast
  show ?thesis
    using a b c ok by blast
qed

theorem ingest_succeeds_witness:
  "benign_accel (field_of (body_of malformed_body) ''accel'') \<and>
   snd (post_readings rt_sample initial_state 0 malformed_body) = Response 200 OkTrue \<and>
   \<not> is_object (JArr [JNum (Fin 1)]) \<and>
   snd (post_readings rt_sample initial_state 0 (JArr [JNum (Fin 1)])) = Response 200 OkTrue"
proof -
  have h: "benign_accel (field_of (body_of malformed_body) ''accel'')"
    by (simp add: benign_accel_def malformed_body_def body_of_def or_js_def field_of_def)
  have n: "\<not> is_object (JArr [JNum (Fin 1)])"
    by simp
  show ?thesis
    using ingest_succeeds [of rt_sample initial_state 0 malformed_body]
      ingest_succeeds [of rt_sample initial_state 0 "JArr [JNum (Fin 1)]"] h n
    by blast
qed

section \<open>A failed ingest leaves the state alone\<close>



section \<open>What a successful ingest answers and what GET /api/latest shows\<close>

text \<open>
  C3, as the spec states it, fails on the handler: a successful POST answers
  \<open>{ok: true}\<close> (line 156) and not the enriched reading, so its answer differs from the
  answer of the GET that follows. Here for the body \<open>{}\<close> on the initial state.
\<close>

theorem ingest_response_counterexample:
  "snd (post_readings rt_sample initial_state 0 (JObj [])) = Response 200 OkTrue \<and>
   get_latest (fst (post_readings rt_sample initial_state 0 (JObj []))) =
     Response 200 (OkData (Some
       \<lparr>temperature = None, humidity = None, accel = JNull, gyro = JNull, lat = None,
        lon = None, timestamp = 0, intensity = None, intensityUnit = None, pitch = None,
        roll = None, alerts = []\<rparr>)) \<and>
   snd (post_readings rt_sample initial_state 0 (JObj [])) \<noteq>
     get_latest (fst (post_readings rt_sample initial_state 0 (JObj [])))"
  by (simp add: ev)

text \<open>
  C3, amended. Every successful ingest stores the newly computed enriched reading in
  \<open>latestReading\<close> (and the reading in \<open>previousReading\<close>) and answers 200 \<open>{ok: true}\<close>,
  without the reading; GET /api/latest right after it answers with exactly that newly
  computed enriched reading.
\<close>

theorem latest_after_ingest:
  assumes "enrich rt (previousReading st) now req_body = Some (rd, e)"
  shows "post_readings rt st now req_body =
           (\<lparr>previousReading = Some rd, latestReading = Some e\<rparr>, Response 200 OkTrue) \<and>
         get_latest (fst (post_readings rt st now req_body)) = Response 200 (OkData (Some e))"
  using assms by (simp add: post_readings_def get_latest_def)

theorem latest_after_ingest_witness:
  "enrich rt_sample (previousReading initial_state) 7 hot_body =
     Some (hot_reading, hot_enriched) \<and>
   post_readings rt_sample initial_state 7 hot_body =
     (\<lparr>previousReading = Some hot_reading, latestReading = Some hot_enriched\<rparr>,
      Response 200 OkTrue) \<and>
   get_latest (fst (post_readings rt_sample initial_state 7 hot_body)) =
     Response 200 (OkData (Some hot_enriched))"
proof -
  have h: "enrich rt_sample (previousReading initial_state) 7 hot_body =
             Some (hot_reading, hot_enriched)"
    using hot_enrich by (simp add: initial_state_def)
  show ?thesis
    using latest_after_ingest [OF h] h by blast
qed

section \<open>How the fields of the body are stored\<close>

text \<open>
  C4, as the spec states it, fails on the handler. A \<open>gyro\<close> that is the string "abc" is
  stored as that string, not as absent: lines 54 and 55 keep any truthy value. And the
  malformed \<open>accel\<close> field \<open>{"x": 1, "y": {"toString": null}}\<close> makes the ingest fail:
  \<open>Number(...)\<close> in line 89 throws on its \<open>y\<close>.
\<close>

theorem coercion_counterexample:
  "enrich rt_sample None 0 (JObj [(''gyro'', JStr ''abc'')]) =
     Some (\<lparr>temperature = None, humidity = None, accel = JNull, gyro = JStr ''abc'',
             lat = None, lon = None, timestamp = 0\<rparr>,
           \<lparr>temperature = None, humidity = None, accel = JNull, gyro = JStr ''abc'',
             lat = None, lon = None, timestamp = 0, intensity = None, intensityUnit = None,
             pitch = None, roll = None, alerts = []\<rparr>) \<and>
   enrich rt_sample None 0
     (JObj [(''accel'', JObj [(''x'', JNum (Fin 1)), (''y'', JObj [(''toString'', JNull)])])]) =
     None"
  by (simp add: ev)

text \<open>
  C4, amended. For every ingested body, \<open>temperature\<close>, \<open>humidity\<close>, \<open>lat\<close> and \<open>lon\<close> are
  stored as absent unless they are numbers; \<open>accel\<close> and \<open>gyro\<close> are stored as the body
  gives them whenever the value is truthy, whatever its type, and as absent only when it
  is falsy; the enriched reading carries the same fields. No malformed \<open>temperature\<close>,
  \<open>humidity\<close>, \<open>lat\<close>, \<open>lon\<close> or \<open>gyro\<close> ever makes the ingest fail: whether it fails depends
  on the \<open>accel\<close> field alone.
\<close>

theorem coercion_of_fields:
  "(enrich rt prev now req_body = Some (rd, e) \<longrightarrow>
      temperature rd = number_or_null (field_of (body_of req_body) ''temperature'') \<and>
      humidity rd = number_or_null (field_of (body_of req_body) ''humidity'') \<and>
      lat rd = number_or_null (field_of (body_of req_body) ''lat'') \<and>
      lon rd = number_or_null (field_of (body_of req_body) ''lon'') \<and>
      accel rd = (if truthy (field_of (body_of req_body) ''accel'')
                  then field_of (body_of req_body) ''accel'' else JNull) \<and>
      gyro rd = (if truthy (field_of (body_of req_body) ''gyro'')
                 then field_of (body_of req_body) ''gyro'' else JNull) \<and>
      timestamp rd = now \<and>
      temperature e = temperature rd \<and> humidity e = humidity rd \<and> lat e = lat rd \<and>
      lon e = lon rd \<and> accel e = accel rd \<and> gyro e = gyro rd \<and> timestamp e = now) \<and>
   (field_of (body_of req_body) ''accel'' = field_of (body_of req_body') ''accel'' \<longrightarrow>
      (enrich rt prev now req_body = None \<longleftrightarrow> enrich rt' prev' now' req_body' = None))"
proof -
  have a: "temperature rd = number_or_null (field_of (body_of req_body) ''temperature'') \<and>
      humidity rd = number_or_null (field_of (body_of req_body) ''humidity'') \<and>
      lat rd = number_or_null (field_of (body_of req_body) ''lat'') \<and>
      lon rd = number_or_null (field_of (body_of req_body) ''lon'') \<and>
      accel rd = (if truthy (field_of (body_of req_body) ''accel'')
                  then field_of (body_of req_body) ''accel'' else JNull) \<and>
      gyro rd = (if truthy (field_of (body_of req_body) ''gyro'')
                 then field_of (body_of req_body) ''gyro'' else JNull) \<and>
      timestamp rd = now \<and>
      temperature e = temperature rd \<and> humidity e = humidity rd \<and> lat e = lat rd \<and>
      lon e = lon rd \<and> accel e = accel rd \<and> gyro e = gyro rd \<and> timestamp e = now"
    if en: "enrich rt prev now req_body = Some (rd, e)"
  proof -
    have rd: "rd = coerced now (body_of req_body)"
      using en by (rule enrich_SomeD(1))
    obtain i u p r al where e: "e = assemble rd i u p r al"
      using enrich_SomeD(2) [OF en] by blast
    show ?thesis
      by (simp add: e assemble_def) (simp add: rd coerced_def or_js_def)
  qed
  have b: "enrich rt prev now req_body = None \<longleftrightarrow> enrich rt' prev' now' req_body' = None"
    if "field_of (body_of req_body) ''accel'' = field_of (body_of req_body') ''accel''"
    using that by (simp add: enrich_None_iff)
  show ?thesis
    using a b by blast
qed

theorem coercion_of_fields_witness:
  "(\<exists>e. enrich rt_sample None 0 malformed_body = Some (malformed_reading, e) \<and>
        temperature e = None \<and> humidity e = None \<and> lat e = None \<and> lon e = None \<and>
        gyro e = JObj [(''toString'', JNum (Fin 1))] \<and>
        accel e = JObj [(''x'', JNum (Fin 1)), (''y'', JBool True), (''z'', JNull)]) \<and>
   field_of (body_of (JObj [(''gyro'', JStr ''abc'')])) ''accel'' =
     field_of (body_of (JObj [])) ''accel'' \<and>
   (enrich rt_sample None 0 (JObj [(''gyro'', JStr ''abc'')]) = None \<longleftrightarrow>
      enrich rt_sample (Some origin_reading) 9 (JObj []) = None)"
proof -
  have h: "field_of (body_of (JObj [(''gyro'', JStr ''abc'')])) ''accel'' =
     field_of (body_of (JObj [])) ''accel''"
    by (simp add: body_of_def or_js_def field_of_def)
  obtain e where en: "enrich rt_sample None 0 malformed_body = Some (malformed_reading, e)"
    using malformed_enrich by blast
  have fields: "temperature e = None \<and> humidity e = None \<and> lat e = None \<and> lon e = None \<and>
        gyro e = JObj [(''toString'', JNum (Fin 1))] \<and>
        accel e = JObj [(''x'', JNum (Fin 1)), (''y'', JBool True), (''z'', JNull)]"
    using coercion_of_fields
      [of rt_sample None 0 malformed_body malformed_reading e malformed_body rt_sample None 0]
      en
    by (simp add: malformed_reading_def)
  have "enrich rt_sample None 0 (JObj [(''gyro'', JStr ''abc'')]) = None \<longleftrightarrow>
      enrich rt_sample (Some origin_reading) 9 (JObj []) = None"
    using coercion_of_fields
      [of rt_sample None 0 "JObj [(''gyro'', JStr ''abc'')]" malformed_reading e "JObj []"
        rt_sample "Some origin_reading" 9] h
    by blast
  with en fields h show ?thesis by blast
qed

section \<open>The position has priority over the accelerometer\<close>

text \<open>
  C5. In every enriched reading an ingest produces: whenever the current reading and the
  stored previous reading both have \<open>lat\<close> and \<open>lon\<close>, \<open>intensity\<close> is the haversine
  distance from the previous to the current position (the formula of lines 32 to 42,
  written out here in the arithmetic of doubles) divided by
  \<open>max(1, now - previous time stamp) / 1000\<close>, and the unit is \<open>m_s\<close> and not \<open>m_s2\<close>,
  whatever \<open>accel\<close> holds; and the unit is \<open>m_s2\<close> only when the GPS branch was not taken.
\<close>

theorem gps_priority:
  assumes "enrich rt prev now req_body = Some (rd, e)"
  shows "(\<forall>p plat plon clat clon.
            prev = Some p \<and> lat p = Some plat \<and> lon p = Some plon \<and>
            lat rd = Some clat \<and> lon rd = Some clon \<longrightarrow>
            (let dLat = fdiv (fmul (fsub clat plat) (Fin PI_d)) (Fin 180);
                 dLon = fdiv (fmul (fsub clon plon) (Fin PI_d)) (Fin 180);
                 a = fadd (fmul (fsin rt (fdiv dLat (Fin 2))) (fsin rt (fdiv dLat (Fin 2))))
                       (fmul (fmul (fmul (fcos rt (fdiv (fmul plat (Fin PI_d)) (Fin 180)))
                                      (fcos rt (fdiv (fmul clat (Fin PI_d)) (Fin 180))))
                                (fsin rt (fdiv dLon (Fin 2))))
                          (fsin rt (fdiv dLon (Fin 2))));
                 c = fmul (Fin 2) (fatan2 rt (fsqrt a) (fsqrt (fsub (Fin 1) a)));
                 dMeters = fmul (Fin 6371000) c;
                 dtMs = max 1 (now - timestamp p)
             in dMeters = haversineDistanceMeters rt plat plon clat clon \<and>
                intensity e = Some (fdiv dMeters (fdiv (Fin (of_int dtMs)) (Fin 1000))) \<and>
                intensityUnit e = Some M_S \<and> intensityUnit e \<noteq> Some M_S2)) \<and>
         (intensityUnit e = Some M_S2 \<longrightarrow> \<not> gps_cond prev rd)"
proof -
  have ts: "timestamp rd = now"
    using enrich_SomeD(1) [OF assms] by (simp add: coerced_def)
  have g: "intensity e = fst (gps_block rt prev rd) \<and> intensityUnit e = Some M_S"
    if "gps_cond prev rd"
    using that enrich_intensity(1,3) [OF assms] by blast
  have a: "\<forall>p plat plon clat clon.
            prev = Some p \<and> lat p = Some plat \<and> lon p = Some plon \<and>
            lat rd = Some clat \<and> lon rd = Some clon \<longrightarrow>
            (let dLat = fdiv (fmul (fsub clat plat) (Fin PI_d)) (Fin 180);
                 dLon = fdiv (fmul (fsub clon plon) (Fin PI_d)) (Fin 180);
                 a = fadd (fmul (fsin rt (fdiv dLat (Fin 2))) (fsin rt (fdiv dLat (Fin 2))))
                       (fmul (fmul (fmul (fcos rt (fdiv (fmul plat (Fin PI_d)) (Fin 180)))
                                      (fcos rt (fdiv (fmul clat (Fin PI_d)) (Fin 180))))
                                (fsin rt (fdiv dLon (Fin 2))))
                          (fsin rt (fdiv dLon (Fin 2))));
                 c = fmul (Fin 2) (fatan2 rt (fsqrt a) (fsqrt (fsub (Fin 1) a)));
                 dMeters = fmul (Fin 6371000) c;
                 dtMs = max 1 (now - timestamp p)
             in dMeters = haversineDistanceMeters rt plat plon clat clon \<and>
                intensity e = Some (fdiv dMeters (fdiv (Fin (of_int dtMs)) (Fin 1000))) \<and>
                intensityUnit e = Some M_S \<and> intensityUnit e \<noteq> Some M_S2)"
  proof (intro allI impI)
    fix p plat plon clat clon
    assume h: "prev = Some p \<and> lat p = Some plat \<and> lon p = Some plon \<and>
            lat rd = Some clat \<and> lon rd = Some clon"
    then have gc: "gps_cond prev rd"
      by (simp add: gps_cond_def)
    have gb: "fst (gps_block rt prev rd) =
        Some (gps_speed rt plat plon (timestamp p) clat clon now)"
      using h by (simp add: gps_block_def ts)
    show "let dLat = fdiv (fmul (fsub clat plat) (Fin PI_d)) (Fin 180);
                 dLon = fdiv (fmul (fsub clon plon) (Fin PI_d)) (Fin 180);
                 a = fadd (fmul (fsin rt (fdiv dLat (Fin 2))) (fsin rt (fdiv dLat (Fin 2))))
                       (fmul (fmul (fmul (fcos rt (fdiv (fmul plat (Fin PI_d)) (Fin 180)))
                                      (fcos rt (fdiv (fmul clat (Fin PI_d)) (Fin 180))))
                                (fsin rt (fdiv dLon (Fin 2))))
                          (fsin rt (fdiv dLon (Fin 2))));
                 c = fmul (Fin 2) (fatan2 rt (fsqrt a) (fsqrt (fsub (Fin 1) a)));
                 dMeters = fmul (Fin 6371000) c;
                 dtMs = max 1 (now - timestamp p)
             in dMeters = haversineDistanceMeters rt plat plon clat clon \<and>
                intensity e = Some (fdiv dMeters (fdiv (Fin (of_int dtMs)) (Fin 1000))) \<and>
                intensityUnit e = Some M_S \<and> intensityUnit e \<noteq> Some M_S2"
      using g [OF gc]
      by (simp add: gb gps_speed_def haversineDistanceMeters_def toRadians_def Let_def)
  qed
  have b: "intensityUnit e = Some M_S2 \<longrightarrow> \<not> gps_cond prev rd"
    using enrich_intensity(1,3) [OF assms] by (cases "accel_cond rd") auto
  show ?thesis
    using a b by (rule conjI)
qed

theorem gps_priority_witness:
  "enrich rt_sample (Some origin_reading) 1000 same_place_body =
     Some (same_place_reading, same_place_enriched) \<and>
   lat origin_reading = Some (Fin 0) \<and> lon origin_reading = Some (Fin 0) \<and>
   lat same_place_reading = Some (Fin 0) \<and> lon same_place_reading = Some (Fin 0) \<and>
   truthy (accel same_place_reading) \<and>
   haversineDistanceMeters rt_sample (Fin 0) (Fin 0) (Fin 0) (Fin 0) = Fin 0 \<and>
   intensity same_place_enriched = Some (Fin 0) \<and>
   intensityUnit same_place_enriched = Some M_S \<and>
   enrich rt_sample (Some origin_reading) 1000 gps_accel_body =
     Some (gps_accel_reading, gps_accel_enriched) \<and>
   lat gps_accel_reading = Some (Fin 0) \<and> lon gps_accel_reading = Some (Fin 1) \<and>
   truthy (accel gps_accel_reading) \<and>
   intensity gps_accel_enriched =
     Some (fdiv (haversineDistanceMeters rt_sample (Fin 0) (Fin 0) (Fin 0) (Fin 1)) (Fin 1)) \<and>
   intensityUnit gps_accel_enriched = Some M_S"
proof -
  have o: "lat origin_reading = Some (Fin 0)" "lon origin_reading = Some (Fin 0)"
    "timestamp origin_reading = 0"
    by (simp_all add: origin_reading_def)
  have s: "lat same_place_reading = Some (Fin 0)" "lon same_place_reading = Some (Fin 0)"
    "truthy (accel same_place_reading)"
    by (simp_all add: same_place_reading_def)
  have m: "lat gps_accel_reading = Some (Fin 0)" "lon gps_accel_reading = Some (Fin 1)"
    "truthy (accel gps_accel_reading)"
    by (simp_all add: gps_accel_reading_def)
  have "intensity same_place_enriched =
      Some (fdiv (haversineDistanceMeters rt_sample (Fin 0) (Fin 0) (Fin 0) (Fin 0))
              (fdiv (Fin 1000) (Fin 1000))) \<and>
    intensityUnit same_place_enriched = Some M_S"
    using gps_priority [OF same_place_enrich] o s by (simp add: Let_def)
  then have i1: "intensity same_place_enriched = Some (Fin 0)"
    "intensityUnit same_place_enriched = Some M_S"
    by (simp_all add: haversine_same_place zero_arith)
  have "intensity gps_accel_enriched =
      Some (fdiv (haversineDistanceMeters rt_sample (Fin 0) (Fin 0) (Fin 0) (Fin 1))
              (fdiv (Fin 1000) (Fin 1000))) \<and>
    intensityUnit gps_accel_enriched = Some M_S"
    using gps_priority [OF gps_accel_enrich] o m by (simp add: Let_def)
  then have i2: "intensity gps_accel_enriched =
      Some (fdiv (haversineDistanceMeters rt_sample (Fin 0) (Fin 0) (Fin 0) (Fin 1)) (Fin 1))"
    "intensityUnit gps_accel_enriched = Some M_S"
    by (simp_all add: zero_arith)
  show ?thesis
    using same_place_enrich gps_accel_enrich o(1,2) s m i1 i2 haversine_same_place [of rt_sample]
    by blast
qed

section \<open>Pitch and roll\<close>

lemma fatan2_nan_iff: "is_nan (fatan2 rt y x) \<longleftrightarrow> is_nan y \<or> is_nan x"
  by (simp add: fatan2_def signed_zero_def)








section \<open>The impact scenario\<close>

text \<open>
  C7. For every ingest whose body has \<open>accel = {x: 20000, y: 0, z: 0}\<close>, whatever the
  other fields, the state and the clock: the ingest succeeds and its alerts end with the
  tilted-or-falling alert followed by the impact alert, and neither of the two occurs
  among the alerts before them (those of temperature, humidity and speed).
\<close>

theorem impact_scenario:
  assumes "getp (or_js req_body (JObj [])) ''accel'' =
             Some (JObj [(''x'', JNum (Fin 20000)), (''y'', JNum (Fin 0)), (''z'', JNum (Fin 0))])"
  shows "\<exists>rd e pre.
           enrich rt prev now req_body = Some (rd, e) \<and>
           alerts e = pre @ [TiltedOrFalling, ImpactShock] \<and>
           pre = temperature_alerts rd @ humidity_alerts rd @
                 speed_alerts (intensity e) (intensityUnit e) \<and>
           TiltedOrFalling \<notin> set pre \<and> ImpactShock \<notin> set pre"
proof -
  define rd where "rd = coerced now (body_of req_body)"
  have acc: "accel rd =
      JObj [(''x'', JNum (Fin 20000)), (''y'', JNum (Fin 0)), (''z'', JNum (Fin 0))]"
    unfolding rd_def using assms by (rule enrich_accel_literal)
  have imp: "impact_alerts rt rd = Some [TiltedOrFalling, ImpactShock]"
    using acc by (rule impact_alerts_samples(5))
  have "accel_block rt rd (fst (gps_block rt prev rd)) (snd (gps_block rt prev rd)) \<noteq> None"
    by (simp add: accel_block_None_iff acc field_of_def)
  then obtain i u p r where
    ab: "accel_block rt rd (fst (gps_block rt prev rd)) (snd (gps_block rt prev rd)) =
           Some (i, u, p, r)"
    by (cases "accel_block rt rd (fst (gps_block rt prev rd)) (snd (gps_block rt prev rd))") auto
  define e where "e = assemble rd i u p r
      (temperature_alerts rd @ humidity_alerts rd @ speed_alerts i u @
       [TiltedOrFalling, ImpactShock])"
  have en: "enrich rt prev now req_body = Some (rd, e)"
    by (simp add: enrich_unfold rd_def[symmetric] ab imp e_def)
  have al: "alerts e = (temperature_alerts rd @ humidity_alerts rd @
                 speed_alerts (intensity e) (intensityUnit e)) @ [TiltedOrFalling, ImpactShock]"
    by (simp add: e_def assemble_def)
  have no: "TiltedOrFalling \<notin> set (temperature_alerts rd @ humidity_alerts rd @
                 speed_alerts (intensity e) (intensityUnit e))"
       "ImpactShock \<notin> set (temperature_alerts rd @ humidity_alerts rd @
                 speed_alerts (intensity e) (intensityUnit e))"
    by (auto simp: temperature_alerts_def humidity_alerts_def speed_alerts_def
          split: option.splits if_splits)
  show ?thesis
    using en al no by blast
qed

theorem impact_scenario_witness:
  "getp (or_js impact_body (JObj [])) ''accel'' =
     Some (JObj [(''x'', JNum (Fin 20000)), (''y'', JNum (Fin 0)), (''z'', JNum (Fin 0))]) \<and>
   (\<exists>rd e. enrich rt_sample None 0 impact_body = Some (rd, e) \<and>
      alerts e = [TempHigh, TiltedOrFalling, ImpactShock])"
proof -
  have h: "getp (or_js impact_body (JObj [])) ''accel'' =
     Some (JObj [(''x'', JNum (Fin 20000)), (''y'', JNum (Fin 0)), (''z'', JNum (Fin 0))])"
    by (simp add: impact_body_def or_js_def)
  obtain rd e pre where
    en: "enrich rt_sample None 0 impact_body = Some (rd, e)"
    and al: "alerts e = pre @ [TiltedOrFalling, ImpactShock]"
    using impact_scenario [OF h, of rt_sample None 0] by blast
  have pre: "pre = temperature_alerts rd @ humidity_alerts rd @
      speed_alerts (intensity e) (intensityUnit e)"
    using impact_scenario [OF h, of rt_sample None 0] en al
    by auto
  have rd: "rd = coerced 0 (body_of impact_body)"
    using en by (rule enrich_SomeD(1))
  have t: "temperature_alerts rd = [TempHigh]" "humidity_alerts rd = []"
    by (simp_all add: rd sample_bodies impact_body_def temperature_alerts_def
          humidity_alerts_def threshold_samples)
  have ic: "intensityUnit e = Some M_S2"
    using enrich_intensity(2) [OF en]
    by (simp add: rd sample_bodies impact_body_def accel_cond_def gps_cond_def)
  have "speed_alerts (intensity e) (intensityUnit e) = []"
    by (simp add: ic speed_alerts_def split: option.splits)
  with pre t al have "alerts e = [TempHigh, TiltedOrFalling, ImpactShock]"
    by simp
  with en h show ?thesis by blast
qed

section \<open>The zero acceleration\<close>

text \<open>
  C8. For every ingest whose body has \<open>accel = {x: 0, y: 0, z: 0}\<close>, nothing is thrown:
  the ingest succeeds. The pitch denominator \<open>sqrt(gY*gY + gZ*gZ)\<close> and the roll divisor
  \<open>gZ\<close> are both exactly zero, and the divisor handed to \<open>atan2\<close> is in both cases the
  floor \<open>1e-9\<close>, which is not zero (with these divisors the angles are \<open>atan2(x, 1e-9)\<close> and
  \<open>atan2(-y, 1e-9)\<close> whatever the numerators); \<open>pitch\<close> is positive zero and \<open>roll\<close> is
  negative zero, both present and finite.
\<close>

theorem zero_accel_orientation:
  assumes "getp (or_js req_body (JObj [])) ''accel'' =
             Some (JObj [(''x'', JNum (Fin 0)), (''y'', JNum (Fin 0)), (''z'', JNum (Fin 0))])"
  shows "\<exists>rd e gX gY gZ denomPitch.
           enrich rt prev now req_body = Some (rd, e) \<and>
           gX = fdiv (Fin 0) (Fin 16384) \<and> gY = fdiv (Fin 0) (Fin 16384) \<and>
           gZ = fdiv (Fin 0) (Fin 16384) \<and>
           denomPitch = fsqrt (fadd (fmul gY gY) (fmul gZ gZ)) \<and>
           denomPitch = Fin 0 \<and> gZ = Fin 0 \<and>
           or_num denomPitch floor_1e9 = floor_1e9 \<and>
           or_num gZ floor_1e9 = floor_1e9 \<and>
           pitch_divisor gY gZ = floor_1e9 \<and> roll_divisor gZ = floor_1e9 \<and>
           floor_1e9 \<noteq> Fin 0 \<and> floor_1e9 \<noteq> NZero \<and> isFinite floor_1e9 \<and>
           (\<forall>x. pitchRad rt x gY gZ = fatan2 rt x floor_1e9) \<and>
           (\<forall>y. rollRad rt y gZ = fatan2 rt (fneg y) floor_1e9) \<and>
           pitch e = degrees_or_null (fatan2 rt gX (pitch_divisor gY gZ)) \<and>
           roll e = degrees_or_null (fatan2 rt (fneg gY) (roll_divisor gZ)) \<and>
           pitch e = Some (Fin 0) \<and> roll e = Some NZero \<and>
           isFinite (Fin 0) \<and> isFinite NZero"
proof -
  define rd where "rd = coerced now (body_of req_body)"
  have acc: "accel rd =
      JObj [(''x'', JNum (Fin 0)), (''y'', JNum (Fin 0)), (''z'', JNum (Fin 0))]"
    unfolding rd_def using assms by (rule enrich_accel_literal)
  obtain i0 u0 where g: "gps_block rt prev rd = (i0, u0)"
    by (cases "gps_block rt prev rd") auto
  define i where "i = (if i0 = None then Some (Fin 0) else i0)"
  define u where "u = (if i0 = None then Some M_S2 else u0)"
  have ab: "accel_block rt rd i0 u0 = Some (i, u, Some (Fin 0), Some NZero)"
    by (simp add: accel_block_numeric [OF acc] counts_to_g linear_accel_samples pitch_samples
          roll_samples degrees_samples i_def u_def)
  define e where "e = assemble rd i u (Some (Fin 0)) (Some NZero)
      (temperature_alerts rd @ humidity_alerts rd @ speed_alerts i u @ [TiltedOrFalling])"
  have en: "enrich rt prev now req_body = Some (rd, e)"
    unfolding e_def rd_def
    by (rule enrich_from_blocks [OF refl g [unfolded rd_def] ab [unfolded rd_def]
          impact_alerts_samples(6) [OF acc [unfolded rd_def]]])
  have pr: "pitch e = Some (Fin 0)" "roll e = Some NZero"
    by (simp_all add: e_def assemble_def)
  have z: "fdiv (Fin 0) (Fin 16384) = Fin 0"
    by (rule counts_to_g(1))
  have sub: "or_num (Fin 0) floor_1e9 = floor_1e9"
    by (simp add: or_num_def)
  have an: "degrees_or_null (fatan2 rt (Fin 0) floor_1e9) = Some (Fin 0)"
    "degrees_or_null (fatan2 rt NZero floor_1e9) = Some NZero"
    by (simp_all add: atan2_at_zero degrees_samples)
  have fin: "isFinite floor_1e9"
    by (simp add: floor_1e9_def)
  show ?thesis
    using en pr
    by (simp add: z divisor_samples sub an floor_1e9_facts fin pitchRad_def rollRad_def)
qed

theorem zero_accel_orientation_witness:
  "getp (or_js zero_body (JObj [])) ''accel'' =
     Some (JObj [(''x'', JNum (Fin 0)), (''y'', JNum (Fin 0)), (''z'', JNum (Fin 0))]) \<and>
   (\<exists>rd e. enrich rt_sample None 0 zero_body = Some (rd, e) \<and>
      pitch e = Some (Fin 0) \<and> roll e = Some NZero)"
proof -
  have h: "getp (or_js zero_body (JObj [])) ''accel'' =
     Some (JObj [(''x'', JNum (Fin 0)), (''y'', JNum (Fin 0)), (''z'', JNum (Fin 0))])"
    by (simp add: zero_body_def or_js_def)
  show ?thesis
    using zero_accel_orientation [OF h, of rt_sample None 0] h by blast
qed

section \<open>The invariant of the state\<close>

text \<open>
  C9. In every state the server reaches from its initial state by POST requests,
  \<open>latestReading\<close>, when set, was built from the reading that is now \<open>previousReading\<close>:
  their raw fields are equal. After every successful ingest, \<open>latestReading\<close> is the
  enriched reading computed from the body and from what \<open>previousReading\<close> held before,
  and \<open>previousReading\<close> is the reading built from the body, whose fields the new
  \<open>latestReading\<close> carries.
\<close>

theorem latest_derived_from_previous:
  "state_inv (run rt initial_state rs) \<and>
   (enrich rt (previousReading st) now req_body = Some (rd, e) \<longrightarrow>
      latestReading (fst (post_readings rt st now req_body)) = Some e \<and>
      previousReading (fst (post_readings rt st now req_body)) = Some rd \<and>
      raw_of e = rd \<and> rd = coerced now (body_of req_body))"
proof -
  have "state_inv initial_state"
    by (simp add: state_inv_def initial_state_def)
  then have "state_inv (run rt initial_state rs)"
    by (rule run_inv)
  moreover have "enrich rt (previousReading st) now req_body = Some (rd, e) \<longrightarrow>
      latestReading (fst (post_readings rt st now req_body)) = Some e \<and>
      previousReading (fst (post_readings rt st now req_body)) = Some rd \<and>
      raw_of e = rd \<and> rd = coerced now (body_of req_body)"
    by (auto simp: post_readings_def dest: enrich_raw enrich_SomeD(1))
  ultimately show ?thesis by simp
qed

theorem latest_derived_from_previous_witness:
  "enrich rt_sample (previousReading initial_state) 7 hot_body =
     Some (hot_reading, hot_enriched) \<and>
   state_inv (run rt_sample initial_state [(7, hot_body), (5, toString_body)]) \<and>
   latestReading (fst (post_readings rt_sample initial_state 7 hot_body)) = Some hot_enriched \<and>
   previousReading (fst (post_readings rt_sample initial_state 7 hot_body)) =
     Some hot_reading \<and>
   raw_of hot_enriched = hot_reading"
proof -
  have h: "enrich rt_sample (previousReading initial_state) 7 hot_body =
             Some (hot_reading, hot_enriched)"
    using hot_enrich by (simp add: initial_state_def)
  show ?thesis
    using latest_derived_from_previous
      [of rt_sample "[(7, hot_body), (5, toString_body)]" initial_state 7 hot_body
        hot_reading hot_enriched] h
    by blast
qed

section \<open>Intensity and its unit\<close>

text \<open>
  C10. In every enriched reading an ingest produces, \<open>intensity\<close> is absent exactly when
  \<open>intensityUnit\<close> is absent; the unit is \<open>m_s\<close> exactly when the GPS branch was taken, and
  \<open>m_s2\<close> exactly when the GPS branch was not taken and the accelerometer block was
  entered.
\<close>

theorem intensity_unit_paired:
  assumes "enrich rt prev now req_body = Some (rd, e)"
  shows "(intensity e = None \<longleftrightarrow> intensityUnit e = None) \<and>
         (intensityUnit e = Some M_S \<longleftrightarrow> gps_cond prev rd) \<and>
         (intensityUnit e = Some M_S2 \<longleftrightarrow> \<not> gps_cond prev rd \<and> accel_cond rd)"
  using enrich_intensity [OF assms] gps_block_fst_Some [of prev rd]
  by (cases "accel_cond rd"; cases "gps_cond prev rd") auto

theorem intensity_unit_paired_witness:
  "enrich rt_sample (Some origin_reading) 3 rest_body = Some (rest_reading, rest_enriched) \<and>
   (intensity rest_enriched = None \<longleftrightarrow> intensityUnit rest_enriched = None) \<and>
   (intensityUnit rest_enriched = Some M_S \<longleftrightarrow> gps_cond (Some origin_reading) rest_reading) \<and>
   (intensityUnit rest_enriched = Some M_S2 \<longleftrightarrow>
      \<not> gps_cond (Some origin_reading) rest_reading \<and> accel_cond rest_reading)"
  using intensity_unit_paired [OF rest_enrich] rest_enrich by simp

end
